theory Spec2Isabelle
  imports Complex_Main "HOL-Library.AList" "HOL-Library.Sublist"
begin

section \<open>JavaScript values and the string primitives the parser uses\<close>

text \<open>
  Strings are lists of code units. The model covers the code units U+0000 to U+00FF, which is
  what \<^typ>\<open>char\<close> holds; on that range \<open>toLowerCase\<close> and \<open>trim\<close> work one code unit at a
  time and are written out below. Numbers are exact: a finite number is a rational, so the
  rounding of IEEE doubles is not modelled, and the two infinities and NaN are separate values.
\<close>

datatype jsnum = Fin rat | PosInf | NegInf | NaN

datatype jsval = JStr string | JNum jsnum

text \<open>A thrown value: an \<open>Error\<close> object with its message, or any other value.\<close>

datatype js_exn = JsError string | NonError

definition isWhiteSpace :: "char \<Rightarrow> bool" where
  "isWhiteSpace c = (of_char c \<in> {9, 10, 11, 12, 13, 32, 160 :: nat})"

definition trimStart :: "string \<Rightarrow> string" where
  "trimStart s = dropWhile isWhiteSpace s"

definition trim :: "string \<Rightarrow> string" where
  "trim s = rev (dropWhile isWhiteSpace (rev (dropWhile isWhiteSpace s)))"

definition toLowerChar :: "char \<Rightarrow> char" where
  "toLowerChar c =
     (let n = (of_char c :: nat)
      in if (65 \<le> n \<and> n \<le> 90) \<or> (192 \<le> n \<and> n \<le> 214) \<or> (216 \<le> n \<and> n \<le> 222)
         then char_of (n + 32) else c)"

definition toLowerCase :: "string \<Rightarrow> string" where
  "toLowerCase s = map toLowerChar s"

fun js_includes :: "string \<Rightarrow> string \<Rightarrow> bool" where
  "js_includes [] sub = (sub = [])"
| "js_includes (c # cs) sub = (prefix sub (c # cs) \<or> js_includes cs sub)"

definition isDigit :: "char \<Rightarrow> bool" where
  "isDigit c = (48 \<le> (of_char c :: nat) \<and> (of_char c :: nat) \<le> 57)"

definition digitValue :: "char \<Rightarrow> nat" where
  "digitValue c = of_char c - 48"

definition digitsValue :: "string \<Rightarrow> nat" where
  "digitsValue ds = foldl (\<lambda>a c. 10 * a + digitValue c) 0 ds"

subsection \<open>\<open>parseFloat\<close> and the conversion of a string to a number\<close>

text \<open>
  \<open>parseFloat\<close> skips leading white space and reads the longest prefix that is a
  \<open>StrDecimalLiteral\<close>: an optional sign, then \<open>Infinity\<close> or digits with an optional
  fraction and an optional exponent. \<open>strDecimalLiteral\<close> returns the value of that prefix and
  the rest of the string; the value is NaN when no prefix is a literal.
\<close>

definition optSign :: "string \<Rightarrow> bool \<times> string" where
  "optSign s =
     (case s of
        [] \<Rightarrow> (False, [])
      | c # r \<Rightarrow> if c = CHR ''-'' then (True, r) else if c = CHR ''+'' then (False, r) else (False, s))"

definition exponentPart :: "string \<Rightarrow> int \<times> string" where
  "exponentPart s =
     (case s of
        [] \<Rightarrow> (0, s)
      | c # r \<Rightarrow>
          if c = CHR ''e'' \<or> c = CHR ''E'' then
            (let (neg, r') = optSign r; ds = takeWhile isDigit r'
             in if ds = [] then (0, s)
                else ((if neg then - int (digitsValue ds) else int (digitsValue ds)),
                      dropWhile isDigit r'))
          else (0, s))"

definition pow10 :: "int \<Rightarrow> rat" where
  "pow10 e = (if 0 \<le> e then 10 ^ nat e else 1 / 10 ^ nat (- e))"

definition strDecimalLiteral :: "string \<Rightarrow> jsnum \<times> string" where
  "strDecimalLiteral s =
     (let (neg, u) = optSign s
      in if prefix ''Infinity'' u then ((if neg then NegInf else PosInf), drop 8 u)
         else
           (let ip = takeWhile isDigit u; r1 = dropWhile isDigit u;
                (fp, r2) = (case r1 of
                              [] \<Rightarrow> ([], r1)
                            | c # r \<Rightarrow> if c = CHR ''.'' then (takeWhile isDigit r, dropWhile isDigit r)
                                       else ([], r1))
            in if ip = [] \<and> fp = [] then (NaN, s)
               else
                 (let (e, r3) = exponentPart r2;
                      m = (of_nat (digitsValue ip) + of_nat (digitsValue fp) / 10 ^ length fp) * pow10 e
                  in (Fin (if neg then - m else m), r3))))"

definition parseFloat :: "string \<Rightarrow> jsnum" where
  "parseFloat s = fst (strDecimalLiteral (trimStart s))"

definition isNaN :: "jsnum \<Rightarrow> bool" where
  "isNaN n = (n = NaN)"

text \<open>
  \<open>ToNumber\<close> of a string, which the relational operators apply to a string operand: white
  space is trimmed, the empty string is 0, and the whole rest must be a decimal literal or an
  unsigned \<open>0x\<close>, \<open>0o\<close> or \<open>0b\<close> integer literal.
\<close>

definition radixDigit :: "char \<Rightarrow> nat" where
  "radixDigit c =
     (let n = (of_char c :: nat)
      in if 48 \<le> n \<and> n \<le> 57 then n - 48
         else if 97 \<le> n \<and> n \<le> 102 then n - 87
         else if 65 \<le> n \<and> n \<le> 70 then n - 55 else 16)"

definition radixValue :: "nat \<Rightarrow> string \<Rightarrow> nat" where
  "radixValue b ds = foldl (\<lambda>a c. b * a + radixDigit c) 0 ds"

definition nonDecimalIntegerLiteral :: "string \<Rightarrow> jsnum" where
  "nonDecimalIntegerLiteral s =
     (case s of
        z # x # ds \<Rightarrow>
          (let b = (if x = CHR ''x'' \<or> x = CHR ''X'' then 16
                    else if x = CHR ''o'' \<or> x = CHR ''O'' then 8
                    else if x = CHR ''b'' \<or> x = CHR ''B'' then 2 else (0::nat))
           in if z = CHR ''0'' \<and> b \<noteq> 0 \<and> ds \<noteq> [] \<and> list_all (\<lambda>c. radixDigit c < b) ds
              then Fin (of_nat (radixValue b ds)) else NaN)
      | _ \<Rightarrow> NaN)"

definition toNumber :: "string \<Rightarrow> jsnum" where
  "toNumber s =
     (let t = trim s
      in if t = [] then Fin 0
         else (case strDecimalLiteral t of
                 (n, r) \<Rightarrow> if n \<noteq> NaN \<and> r = [] then n else nonDecimalIntegerLiteral t))"

text \<open>Comparison of a number with a rational constant; every comparison with NaN is false.\<close>

fun numLess :: "jsnum \<Rightarrow> rat \<Rightarrow> bool" where
  "numLess (Fin r) k = (r < k)"
| "numLess NegInf k = True"
| "numLess PosInf k = False"
| "numLess NaN k = False"

fun numGreater :: "jsnum \<Rightarrow> rat \<Rightarrow> bool" where
  "numGreater (Fin r) k = (k < r)"
| "numGreater PosInf k = True"
| "numGreater NegInf k = False"
| "numGreater NaN k = False"

fun numLessEq :: "jsnum \<Rightarrow> rat \<Rightarrow> bool" where
  "numLessEq (Fin r) k = (r \<le> k)"
| "numLessEq NegInf k = True"
| "numLessEq PosInf k = False"
| "numLessEq NaN k = False"

fun numDiv :: "jsnum \<Rightarrow> rat \<Rightarrow> jsnum" where
  "numDiv (Fin r) k = Fin (r / k)"
| "numDiv n k = n"

text \<open>Truthiness of a property read: \<open>undefined\<close>, the empty string, 0 and NaN are falsy.\<close>

fun truthy :: "jsval option \<Rightarrow> bool" where
  "truthy None = False"
| "truthy (Some (JStr s)) = (s \<noteq> [])"
| "truthy (Some (JNum n)) = (n \<noteq> Fin 0 \<and> n \<noteq> NaN)"

section \<open>Column mapping\<close>

text \<open>
  A raw row is the decoded object of one sheet row: its headers in the order \<open>Object.keys\<close>
  lists them, each with its cell text. A mapped row is the object \<open>mapColumns\<close> builds; a
  property assignment overwrites the property in place or appends a new one.
\<close>

type_synonym raw_row = "(string \<times> string) list"

type_synonym mapped_row = "(string \<times> jsval) list"

definition getProp :: "mapped_row \<Rightarrow> string \<Rightarrow> jsval option" where
  "getProp row field = map_of row field"

definition SALARY_COLUMN_MAPPINGS :: "(string \<times> string) list" where
  "SALARY_COLUMN_MAPPINGS = [
    (''employee_id'', ''employeeId''), (''employeeid'', ''employeeId''),
    (''emp_id'', ''employeeId''), (''id'', ''employeeId''),
    (''employee id'', ''employeeId''), (''employee number'', ''employeeId''),
    (''employee_number'', ''employeeId''), (''email'', ''email''),
    (''email_address'', ''email''), (''e-mail'', ''email''),
    (''work_email'', ''email''), (''name'', ''name''),
    (''full_name'', ''name''), (''employee_name'', ''name''),
    (''full name'', ''name''), (''employee full name'', ''name''),
    (''employee_full_name'', ''name''), (''first_name'', ''firstName''),
    (''firstname'', ''firstName''), (''first name'', ''firstName''),
    (''last_name'', ''lastName''), (''lastname'', ''lastName''),
    (''last name'', ''lastName''), (''country'', ''country''),
    (''location'', ''country''), (''currency'', ''currency''),
    (''curr'', ''currency''), (''country iso2'', ''country''),
    (''base_salary'', ''baseSalary''), (''basesalary'', ''baseSalary''),
    (''salary'', ''baseSalary''), (''annual_salary'', ''baseSalary''),
    (''base salary'', ''baseSalary''), (''annual salary'', ''baseSalary''),
    (''base pay all countries'', ''baseSalary''), (''total base pay'', ''baseSalary''),
    (''annual calculated base pay all countries'', ''baseSalary''), (''salary_grade_min'', ''salaryGradeMin''),
    (''grade_min'', ''salaryGradeMin''), (''min_salary'', ''salaryGradeMin''),
    (''min pay grade value'', ''salaryGradeMin''), (''salary_grade_mid'', ''salaryGradeMid''),
    (''grade_mid'', ''salaryGradeMid''), (''mid_salary'', ''salaryGradeMid''),
    (''mid pay grade value'', ''salaryGradeMid''), (''salary_grade_max'', ''salaryGradeMax''),
    (''grade_max'', ''salaryGradeMax''), (''max_salary'', ''salaryGradeMax''),
    (''max pay grade value'', ''salaryGradeMax''), (''comparatio'', ''comparatio''),
    (''time_in_role'', ''timeInRole''), (''months_in_role'', ''timeInRole''),
    (''tenure'', ''timeInRole''), (''time in role'', ''timeInRole''),
    (''latest hire date'', ''hireDate''), (''job entry start date'', ''roleStartDate''),
    (''hire_date'', ''hireDate''), (''start_date'', ''hireDate''),
    (''role_start_date'', ''roleStartDate''), (''current_role_start'', ''roleStartDate''),
    (''last_raise_date'', ''lastRaiseDate''), (''last raise date'', ''lastRaiseDate''),
    (''last salary change date'', ''lastRaiseDate''), (''department'', ''departmentCode''),
    (''department_code'', ''departmentCode''), (''department - cc based'', ''departmentCode''),
    (''job_title'', ''jobTitle''), (''title'', ''jobTitle''),
    (''business title'', ''jobTitle''), (''job profile'', ''jobTitle''),
    (''job function'', ''jobTitle''), (''job family'', ''jobTitle''),
    (''manager_id'', ''managerId''), (''manager id'', ''managerId''),
    (''manager employee number'', ''managerId''), (''manager_name'', ''managerName''),
    (''manager name'', ''managerName''), (''manager full name'', ''managerName''),
    (''manager_full_name'', ''managerName''), (''first line manager'', ''managerName''),
    (''direct manager'', ''managerName''), (''supervisor'', ''managerName''),
    (''grade band'', ''gradeLevel''), (''grade_band'', ''gradeLevel''),
    (''compensation grade profile'', ''gradeLevel''), (''salary range segment'', ''salaryRangeSegment''),
    (''salary_range_segment'', ''salaryRangeSegment''), (''range_segment'', ''salaryRangeSegment''),
    (''below range minimum?'', ''belowRangeMinimum''), (''below_range_minimum?'', ''belowRangeMinimum''),
    (''below range minimum'', ''belowRangeMinimum''), (''below_range_minimum'', ''belowRangeMinimum''),
    (''is_below_minimum'', ''belowRangeMinimum'')]"

definition PERFORMANCE_COLUMN_MAPPINGS :: "(string \<times> string) list" where
  "PERFORMANCE_COLUMN_MAPPINGS = [
    (''employee_id'', ''employeeId''), (''employeeid'', ''employeeId''),
    (''emp_id'', ''employeeId''), (''id'', ''employeeId''),
    (''employee id'', ''employeeId''), (''employee number'', ''employeeId''),
    (''employee_number'', ''employeeId''), (''associate id'', ''employeeId''),
    (''associate_id'', ''employeeId''), (''email'', ''email''),
    (''name'', ''name''), (''employee_name'', ''name''),
    (''employee full name'', ''name''), (''employee_full_name'', ''name''),
    (''worker'', ''name''), (''performance_rating'', ''performanceRating''),
    (''rating'', ''performanceRating''), (''performance'', ''performanceRating''),
    (''perf_rating'', ''performanceRating''), (''performance rating'', ''performanceRating''),
    (''overall performance rating'', ''performanceRating''), (''overall_performance_rating'', ''performanceRating''),
    (''overall performance rating (current)'', ''performanceRating''), (''performance: what (current)'', ''performanceRating''),
    (''performance: how (current)'', ''performanceRating''), (''calibrated value: overall performance rating'', ''performanceRating''),
    (''calibrated value: performance: what'', ''performanceRating''), (''calibrated value: performance: how'', ''performanceRating''),
    (''pre-calibrated value: overall performance rating'', ''performanceRating''), (''calibrated value: identified as future talent?'', ''futuretalent''),
    (''calibrated value: movement readiness'', ''movementReadiness''), (''calibrated value: proposed talent actions'', ''proposedTalentActions''),
    (''calibrated value: future talent: growth agility'', ''businessImpactScore''), (''calibrated value: future talent: change agility'', ''businessImpactScore''),
    (''business_impact'', ''businessImpactScore''), (''business_impact_score'', ''businessImpactScore''),
    (''impact_score'', ''businessImpactScore''), (''business impact'', ''businessImpactScore''),
    (''retention_risk'', ''retentionRisk''), (''risk_score'', ''retentionRisk''),
    (''retention risk'', ''retentionRisk''), (''flight_risk'', ''retentionRisk''),
    (''identified as future talent?'', ''retentionRisk''), (''identified as future talent? (current)'', ''retentionRisk'')]"

text \<open>
  \<open>mappings[normalizedKey]\<close> reads a property of an object literal, so a key the table does
  not have is looked up on \<open>Object.prototype\<close>. A normalized key is lower case, and the only
  lower-case names there are \<open>constructor\<close> and \<open>__proto__\<close>; both give a truthy value, which
  becomes a property name through \<open>ToString\<close>.
\<close>

definition objectGet :: "(string \<times> string) list \<Rightarrow> string \<Rightarrow> string option" where
  "objectGet mappings k =
     (case map_of mappings k of
        Some mappedField \<Rightarrow> Some mappedField
      | None \<Rightarrow>
          if k = ''constructor'' then Some ''function Object() { [native code] }''
          else if k = ''__proto__'' then Some ''[object Object]''
          else None)"

definition numericFields :: "string list" where
  "numericFields = [''baseSalary'', ''salaryGradeMin'', ''salaryGradeMid'',
                    ''salaryGradeMax'', ''timeInRole'', ''businessImpactScore'', ''retentionRisk'']"

text \<open>
  The three regular-expression replacements and the trim that build \<open>cleanValue\<close>. Of the
  currency symbols only the pound and the yen sign are code units below U+0100.
\<close>

definition cleanValue :: "string \<Rightarrow> string" where
  "cleanValue v =
     trim (filter (\<lambda>c. isDigit c \<or> c = CHR ''.'' \<or> c = CHR ''-'')
            (filter (\<lambda>c. c \<notin> {CHR ''$'', CHR '','', CHR 0xA3, CHR 0xA5})
              (filter (\<lambda>c. c \<noteq> CHR 0x22 \<and> c \<noteq> CHR 0x27) v)))"

text \<open>
  Calling a string method on a number throws a \<open>TypeError\<close>; the message is the one V8 gives.
\<close>

definition notAFunction :: "string \<Rightarrow> js_exn" where
  "notAFunction method = JsError (''value.'' @ method @ '' is not a function'')"

definition coerceNumeric :: "string \<Rightarrow> string \<Rightarrow> jsval" where
  "coerceNumeric mappedField v =
     (if mappedField \<in> set numericFields then
        (let numValue = parseFloat (cleanValue v)
         in if \<not> isNaN numValue then JNum numValue else JStr v)
      else JStr v)"

definition coercePerformanceRating :: "string \<Rightarrow> jsval \<Rightarrow> js_exn + jsval" where
  "coercePerformanceRating mappedField v =
     (if mappedField = ''performanceRating'' then
        (case v of
           JNum n \<Rightarrow> Inl (notAFunction ''trim'')
         | JStr s \<Rightarrow>
             (let t = trim s
              in if js_includes t ''%'' then
                   (let numValue = parseFloat (trim (remove1 CHR ''%'' t))
                    in if \<not> isNaN numValue then Inr (JNum (numDiv numValue 100)) else Inr (JStr t))
                 else Inr (JStr t)))
      else Inr v)"

definition coerceRetentionRisk :: "string \<Rightarrow> jsval \<Rightarrow> js_exn + jsval" where
  "coerceRetentionRisk mappedField v =
     (if mappedField = ''retentionRisk'' then
        (case v of
           JNum n \<Rightarrow> Inl (notAFunction ''toLowerCase'')
         | JStr s \<Rightarrow>
             (let lowerValue = trim (toLowerCase s)
              in if lowerValue = ''yes'' \<or> lowerValue = ''y'' \<or> lowerValue = ''true'' then Inr (JNum (Fin 1))
                 else if lowerValue = ''no'' \<or> lowerValue = ''n'' \<or> lowerValue = ''false'' then Inr (JNum (Fin 0))
                 else Inr (JStr s)))
      else Inr v)"

text \<open>The value stored for one cell: the body of the \<open>if (mappedField)\<close> block.\<close>

definition coerceValue :: "string \<Rightarrow> string \<Rightarrow> js_exn + jsval" where
  "coerceValue mappedField v =
     (if v \<noteq> [] then
        (case coercePerformanceRating mappedField (coerceNumeric mappedField v) of
           Inl e \<Rightarrow> Inl e
         | Inr v' \<Rightarrow> coerceRetentionRisk mappedField v')
      else Inr (JStr v))"

text \<open>The \<open>forEach\<close> over the keys of one row; an exception ends it.\<close>

fun mapRow :: "(string \<times> string) list \<Rightarrow> raw_row \<Rightarrow> mapped_row \<Rightarrow> js_exn + mapped_row" where
  "mapRow mappings [] mappedRow = Inr mappedRow"
| "mapRow mappings ((key, v) # rest) mappedRow =
     (case objectGet mappings (trim (toLowerCase key)) of
        None \<Rightarrow> mapRow mappings rest mappedRow
      | Some mappedField \<Rightarrow>
          (case coerceValue mappedField v of
             Inl e \<Rightarrow> Inl e
           | Inr v' \<Rightarrow> mapRow mappings rest (AList.update mappedField v' mappedRow)))"

fun mapColumns :: "raw_row list \<Rightarrow> (string \<times> string) list \<Rightarrow> js_exn + mapped_row list" where
  "mapColumns [] mappings = Inr []"
| "mapColumns (row # rows) mappings =
     (case mapRow mappings row [] of
        Inl e \<Rightarrow> Inl e
      | Inr mappedRow \<Rightarrow>
          (case mapColumns rows mappings of
             Inl e \<Rightarrow> Inl e
           | Inr mappedRows \<Rightarrow> Inr (mappedRow # mappedRows)))"

section \<open>Row validation\<close>

record ValidationResult =
  isValid :: bool
  rowErrors :: "string list"
  rowWarnings :: "string list"
  employeeId :: jsval

text \<open>The decimal digits of a row number, as a template literal prints it.\<close>

fun showNat :: "nat \<Rightarrow> string" where
  "showNat n = (if n < 10 then [char_of (48 + n)] else showNat (n div 10) @ [char_of (48 + n mod 10)])"

declare showNat.simps [simp del]

text \<open>\<open>typeof v === 'number'\<close>\<close>

fun isNumber :: "jsval option \<Rightarrow> bool" where
  "isNumber (Some (JNum n)) = True"
| "isNumber v = False"

text \<open>
  The relational operators convert their operand with \<open>ToNumber\<close>: \<open>undefined\<close> becomes NaN, a
  string is read as a numeric literal.
\<close>

fun valueToNumber :: "jsval option \<Rightarrow> jsnum" where
  "valueToNumber None = NaN"
| "valueToNumber (Some (JStr s)) = toNumber s"
| "valueToNumber (Some (JNum n)) = n"

text \<open>\<open>row.employeeId || `Row ${index + 1}`\<close>\<close>

definition orRowLabel :: "jsval option \<Rightarrow> nat \<Rightarrow> jsval" where
  "orRowLabel v index = (case v of Some x \<Rightarrow> if truthy v then x else JStr (''Row '' @ showNat (index + 1))
                                 | None \<Rightarrow> JStr (''Row '' @ showNat (index + 1)))"

definition validateSalaryRow :: "nat \<Rightarrow> mapped_row \<Rightarrow> ValidationResult" where
  "validateSalaryRow index row =
     (let errs =
            (if \<not> truthy (getProp row ''employeeId'') then [''Employee ID is required''] else [])
          @ (if \<not> truthy (getProp row ''name'') \<and> \<not> truthy (getProp row ''firstName'')
                \<and> \<not> truthy (getProp row ''lastName'')
             then [''Employee name is required''] else [])
          @ (if \<not> truthy (getProp row ''baseSalary'')
                \<or> numLessEq (valueToNumber (getProp row ''baseSalary'')) 0
             then [''Valid base salary is required''] else [])
          @ (if truthy (getProp row ''baseSalary'') \<and> \<not> isNumber (getProp row ''baseSalary'')
             then [''Base salary must be a number''] else []);
          warns =
            (if \<not> truthy (getProp row ''country'') then [''Country/location information is missing''] else [])
          @ (if \<not> truthy (getProp row ''currency'') then [''Currency information is missing''] else [])
          @ (if truthy (getProp row ''timeInRole'')
                \<and> (\<not> isNumber (getProp row ''timeInRole'')
                     \<or> numLess (valueToNumber (getProp row ''timeInRole'')) 0)
             then [''Time in role should be a positive number (months)''] else [])
      in \<lparr> isValid = (errs = []), rowErrors = errs, rowWarnings = warns,
           employeeId = orRowLabel (getProp row ''employeeId'') index \<rparr>)"

definition validateSalaryData :: "mapped_row list \<Rightarrow> ValidationResult list" where
  "validateSalaryData rows = map (\<lambda>(index, row). validateSalaryRow index row) (enumerate 0 rows)"

definition validatePerformanceRow :: "nat \<Rightarrow> mapped_row \<Rightarrow> ValidationResult" where
  "validatePerformanceRow index row =
     (let errs =
            (if \<not> truthy (getProp row ''employeeId'') then [''Employee ID is required''] else []);
          warns =
            (case getProp row ''performanceRating'' of
               None \<Rightarrow> []
             | Some (JNum n) \<Rightarrow>
                 if numLess n 0 \<or> numGreater n 5
                 then [''Numeric performance rating should be between 0 and 5''] else []
             | Some (JStr s) \<Rightarrow>
                 if trim s = [] then [''Performance rating cannot be empty''] else [])
          @ (if truthy (getProp row ''retentionRisk'')
                \<and> (\<not> isNumber (getProp row ''retentionRisk'')
                     \<or> numLess (valueToNumber (getProp row ''retentionRisk'')) 0
                     \<or> numGreater (valueToNumber (getProp row ''retentionRisk'')) 100)
             then [''Retention risk should be between 0 and 100''] else [])
      in \<lparr> isValid = (errs = []), rowErrors = errs, rowWarnings = warns,
           employeeId = orRowLabel (getProp row ''employeeId'') index \<rparr>)"

definition validatePerformanceData :: "mapped_row list \<Rightarrow> ValidationResult list" where
  "validatePerformanceData rows = map (\<lambda>(index, row). validatePerformanceRow index row) (enumerate 0 rows)"

section \<open>The ingestion pipeline\<close>

text \<open>
  \<open>parseFile\<close> calls four collaborators. The file pre-validation and the structure validation
  belong to \<open>ErrorHandler\<close> (utils/errorHandling), which is not among the sources. The two
  decoders wrap the CSV library and, for spreadsheets, \<open>FileReader\<close> and the spreadsheet
  library; what they hand back is decided by those libraries. Each of the four is a parameter
  here: it gives either its result or the value it throws or rejects with, and an awaited
  decoder is taken to settle.
\<close>

datatype file_type = Salary | Performance | Unknown

record File =
  name :: string
  content :: "nat list"

record issue =
  severity :: string
  message :: string

record StructureValidation =
  structureValid :: bool
  structureErrors :: "issue list"
  structureWarnings :: "issue list"
  detectedFormat :: file_type

record ParseError =
  errorMessage :: string
  errorType :: string

record ParseResult =
  parsedData :: "raw_row list"
  parseErrors :: "ParseError list"

record collaborators =
  validateFile :: "File \<Rightarrow> js_exn + issue list"
  parseCSV :: "File \<Rightarrow> js_exn + ParseResult"
  parseXLSX :: "File \<Rightarrow> js_exn + raw_row list"
  validateDataStructure :: "raw_row list \<Rightarrow> string \<Rightarrow> js_exn + StructureValidation"

record FileUploadResult =
  fileName :: string
  fileType :: file_type
  rowCount :: nat
  validRows :: nat
  errors :: "string list"
  data :: "mapped_row list"

text \<open>\<open>e instanceof Error ? e.message : fallback\<close>\<close>

definition messageOr :: "js_exn \<Rightarrow> string \<Rightarrow> string" where
  "messageOr e fallback = (case e of JsError m \<Rightarrow> m | NonError \<Rightarrow> fallback)"

text \<open>\<open>file.name.split('.').pop()?.toLowerCase()\<close>: the text after the last dot, or the whole name.\<close>

definition fileExtension :: "File \<Rightarrow> string" where
  "fileExtension file = toLowerCase (rev (takeWhile (\<lambda>c. c \<noteq> CHR ''.'') (rev (name file))))"

fun joinWith :: "string \<Rightarrow> string list \<Rightarrow> string" where
  "joinWith sep [] = []"
| "joinWith sep [x] = x"
| "joinWith sep (x # y # ys) = x @ sep @ joinWith sep (y # ys)"

text \<open>Step 2, the body of the inner \<open>try\<close> that decodes the file.\<close>

definition decodeFile :: "collaborators \<Rightarrow> File \<Rightarrow> js_exn + raw_row list" where
  "decodeFile env file =
     (if fileExtension file = ''csv'' then
        (case parseCSV env file of
           Inl e \<Rightarrow> Inl e
         | Inr parseResult \<Rightarrow>
             if parseErrors parseResult \<noteq> [] then
               Inl (JsError (joinWith ''; ''
                      (map (\<lambda>e. ''CSV parsing error: ''
                                 @ (if errorMessage e \<noteq> [] then errorMessage e else errorType e))
                           (parseErrors parseResult))))
             else Inr (parsedData parseResult))
      else if fileExtension file = ''xlsx'' \<or> fileExtension file = ''xls'' then parseXLSX env file
      else Inl (JsError (''Unsupported file type: '' @ fileExtension file
                          @ ''. Please use CSV, XLSX, or XLS files.'')))"

definition hasPerformanceColumns :: "raw_row list \<Rightarrow> bool" where
  "hasPerformanceColumns rawData =
     (case rawData of
        [] \<Rightarrow> False
      | row # _ \<Rightarrow> list_ex (\<lambda>key. js_includes (toLowerCase key) ''performance''
                               \<or> js_includes (toLowerCase key) ''rating'') (map fst row))"

text \<open>\<open>if (performanceRow.f) salaryRow.f = performanceRow.f\<close>\<close>

definition mergeField :: "string \<Rightarrow> mapped_row \<Rightarrow> mapped_row \<Rightarrow> mapped_row" where
  "mergeField f performanceRow salaryRow =
     (case getProp performanceRow f of
        None \<Rightarrow> salaryRow
      | Some v \<Rightarrow> if truthy (Some v) then AList.update f v salaryRow else salaryRow)"

definition mergeRow :: "mapped_row \<Rightarrow> mapped_row \<Rightarrow> mapped_row" where
  "mergeRow salaryRow performanceRow =
     mergeField ''retentionRisk'' performanceRow
       (mergeField ''businessImpactScore'' performanceRow
         (mergeField ''performanceRating'' performanceRow salaryRow))"

text \<open>The \<open>forEach\<close> over the salary rows; a row with no performance row at its index is kept.\<close>

fun mergePerformance :: "mapped_row list \<Rightarrow> mapped_row list \<Rightarrow> mapped_row list" where
  "mergePerformance [] performanceData = []"
| "mergePerformance (salaryRow # salaryData) [] = salaryRow # salaryData"
| "mergePerformance (salaryRow # salaryData) (performanceRow # performanceData) =
     mergeRow salaryRow performanceRow # mergePerformance salaryData performanceData"

text \<open>
  The salary mapping of lines 1403 to 1426: the salary table, and for a combined file the
  performance table merged in by position.
\<close>

definition mapSalary :: "raw_row list \<Rightarrow> js_exn + mapped_row list" where
  "mapSalary rawData =
     (case mapColumns rawData SALARY_COLUMN_MAPPINGS of
        Inl e \<Rightarrow> Inl e
      | Inr salaryData \<Rightarrow>
          if hasPerformanceColumns rawData then
            (case mapColumns rawData PERFORMANCE_COLUMN_MAPPINGS of
               Inl e \<Rightarrow> Inl e
             | Inr performanceData \<Rightarrow> Inr (mergePerformance salaryData performanceData))
          else Inr salaryData)"

text \<open>
  The fraction of valid rows. The source divides two row counts as doubles and compares with
  the double nearest to 0.1, and with another such quotient over the same number of rows; for
  every sheet of fewer than \<open>10\<^sup>1\<^sup>5\<close> rows the comparisons of the exact fractions agree with them.
\<close>

definition validityRate :: "ValidationResult list \<Rightarrow> rat" where
  "validityRate results = of_nat (length (filter isValid results)) / of_nat (length results)"

type_synonym mapping_state = "mapped_row list \<times> ValidationResult list \<times> file_type"

text \<open>The block \<open>if (finalType === 'salary' || finalType === 'unknown')\<close>.\<close>

definition salaryStage :: "file_type \<Rightarrow> file_type \<Rightarrow> raw_row list \<Rightarrow> js_exn + mapping_state" where
  "salaryStage expectedType finalType rawData =
     (if finalType = Salary \<or> finalType = Unknown then
        (case mapSalary rawData of
           Inl e \<Rightarrow> Inl e
         | Inr salaryData \<Rightarrow>
             (let salaryValidation = validateSalaryData salaryData;
                  salaryValidityRate = validityRate salaryValidation
              in if salaryValidityRate > 1 / 10 \<or> expectedType = Salary then
                   Inr (salaryData, salaryValidation, Salary)
                 else if expectedType = Unknown then
                   (case mapColumns rawData PERFORMANCE_COLUMN_MAPPINGS of
                      Inl e \<Rightarrow> Inl e
                    | Inr performanceData \<Rightarrow>
                        (let performanceValidation = validatePerformanceData performanceData;
                             performanceValidityRate = validityRate performanceValidation
                         in if performanceValidityRate > salaryValidityRate then
                              Inr (performanceData, performanceValidation, Performance)
                            else Inr (salaryData, salaryValidation, Salary)))
                 else Inr ([], [], finalType)))
      else Inr ([], [], finalType))"

text \<open>The block \<open>if (finalType === 'performance')\<close> that follows it.\<close>

definition performanceStage :: "mapping_state \<Rightarrow> raw_row list \<Rightarrow> js_exn + mapping_state" where
  "performanceStage st rawData =
     (case st of (mappedData, validationResults, finalType) \<Rightarrow>
        if finalType = Performance then
          (case mapColumns rawData PERFORMANCE_COLUMN_MAPPINGS of
             Inl e \<Rightarrow> Inl e
           | Inr performanceData \<Rightarrow>
               Inr (performanceData, validatePerformanceData performanceData, finalType))
        else Inr st)"

text \<open>
  Step 4, the second inner \<open>try\<close>. An exception comes with the value \<open>finalType\<close> has when
  it is thrown, which the handler reports as the file type.
\<close>

definition mapAndValidate ::
  "file_type \<Rightarrow> file_type \<Rightarrow> raw_row list \<Rightarrow> (js_exn \<times> file_type) + mapping_state" where
  "mapAndValidate expectedType finalType rawData =
     (case salaryStage expectedType finalType rawData of
        Inl e \<Rightarrow> Inl (e, finalType)
      | Inr st \<Rightarrow>
          (case performanceStage st rawData of
             Inl e \<Rightarrow> Inl (e, snd (snd st))
           | Inr st' \<Rightarrow> Inr st'))"

text \<open>
  \<open>mappedData.filter((_, index) => validationResults[index].isValid)\<close>: reading \<open>isValid\<close>
  past the end of \<open>validationResults\<close> throws.
\<close>

fun filterValid :: "mapped_row list \<Rightarrow> ValidationResult list \<Rightarrow> js_exn + mapped_row list" where
  "filterValid [] validationResults = Inr []"
| "filterValid (row # rows) [] =
     Inl (JsError ''Cannot read properties of undefined (reading isValid)'')"
| "filterValid (row # rows) (result # results) =
     (case filterValid rows results of
        Inl e \<Rightarrow> Inl e
      | Inr kept \<Rightarrow> Inr (if isValid result then row # kept else kept))"

definition rowMessages :: "nat \<Rightarrow> string list \<Rightarrow> string list" where
  "rowMessages index msgs = map (\<lambda>m. ''Row '' @ showNat (index + 2) @ '': '' @ m) msgs"

definition allErrors :: "ValidationResult list \<Rightarrow> string list" where
  "allErrors validationResults =
     concat (map (\<lambda>(index, result). if \<not> isValid result then rowMessages index (rowErrors result) else [])
                 (enumerate 0 validationResults))"

definition allWarnings :: "ValidationResult list \<Rightarrow> StructureValidation \<Rightarrow> string list" where
  "allWarnings validationResults structureValidation =
     concat (map (\<lambda>(index, result). rowMessages index (rowWarnings result))
                 (enumerate 0 validationResults))
     @ map (\<lambda>w. ''Data structure: '' @ message w) (structureWarnings structureValidation)"

text \<open>The body of the outer \<open>try\<close>; \<open>Inl\<close> is an exception that reaches the outer handler.\<close>

definition parseFileBody :: "collaborators \<Rightarrow> File \<Rightarrow> file_type \<Rightarrow> js_exn + FileUploadResult" where
  "parseFileBody env file expectedType =
     (case validateFile env file of
        Inl e \<Rightarrow> Inl e
      | Inr fileValidationErrors \<Rightarrow>
          if list_ex (\<lambda>e. severity e = ''ERROR'') fileValidationErrors then
            Inr \<lparr> fileName = name file, fileType = Unknown, rowCount = 0, validRows = 0,
                  errors = map message (filter (\<lambda>e. severity e = ''ERROR'') fileValidationErrors),
                  data = [] \<rparr>
          else
            (case decodeFile env file of
               Inl parseError \<Rightarrow>
                 Inr \<lparr> fileName = name file, fileType = Unknown, rowCount = 0, validRows = 0,
                       errors = [''Failed to parse file: '' @ messageOr parseError ''Unknown parsing error''],
                       data = [] \<rparr>
             | Inr rawData \<Rightarrow>
                 if rawData = [] then
                   Inr \<lparr> fileName = name file, fileType = Unknown, rowCount = 0, validRows = 0,
                         errors = [''File is empty or contains no valid data rows''], data = [] \<rparr>
                 else
                   (case validateDataStructure env rawData (name file) of
                      Inl e \<Rightarrow> Inl e
                    | Inr structureValidation \<Rightarrow>
                        if \<not> structureValid structureValidation then
                          Inr \<lparr> fileName = name file,
                                fileType = detectedFormat structureValidation,
                                rowCount = length rawData, validRows = 0,
                                errors = map message (structureErrors structureValidation)
                                         @ map (\<lambda>w. ''Warning: '' @ message w)
                                               (structureWarnings structureValidation),
                                data = [] \<rparr>
                        else
                          (case mapAndValidate expectedType
                                  (if expectedType = Unknown then detectedFormat structureValidation
                                   else expectedType) rawData of
                             Inl (mappingError, finalType) \<Rightarrow>
                               Inr \<lparr> fileName = name file, fileType = finalType,
                                     rowCount = length rawData, validRows = 0,
                                     errors = [''Column mapping failed: ''
                                               @ messageOr mappingError ''Unknown mapping error''],
                                     data = [] \<rparr>
                           | Inr (mappedData, validationResults, finalType) \<Rightarrow>
                               (case filterValid mappedData validationResults of
                                  Inl e \<Rightarrow> Inl e
                                | Inr validMappedData \<Rightarrow>
                                    Inr \<lparr> fileName = name file, fileType = finalType,
                                          rowCount = length rawData,
                                          validRows = length (filter isValid validationResults),
                                          errors = allErrors validationResults
                                                   @ map (\<lambda>w. ''Warning: '' @ w)
                                                         (allWarnings validationResults structureValidation),
                                          data = validMappedData \<rparr>)))))"

definition parseFile :: "collaborators \<Rightarrow> File \<Rightarrow> file_type \<Rightarrow> FileUploadResult" where
  "parseFile env file expectedType =
     (case parseFileBody env file expectedType of
        Inr result \<Rightarrow> result
      | Inl e \<Rightarrow>
          \<lparr> fileName = name file, fileType = Unknown, rowCount = 0, validRows = 0,
            errors = [''Critical parsing error: '' @ messageOr e ''Unknown error occurred'',
                      ''Please check your file format and try again. Supported formats: CSV, XLSX, XLS'',
                      ''Ensure your file contains the required columns: employeeId, name, and relevant data fields''],
            data = [] \<rparr>)"

section \<open>The raise recommendation\<close>

text \<open>
  The budget constraints the employee view hands to the analysis engine (EmployeeDetail.tsx,
  lines 141 to 144): what is left of the budget, and a cap of 10 percent when the location
  names India and of 12 percent otherwise. An employee without a location is \<open>None\<close>.
\<close>

record BudgetConstraints =
  available :: rat
  maxPercent :: rat

definition budgetConstraints :: "string option \<Rightarrow> rat \<Rightarrow> rat \<Rightarrow> BudgetConstraints" where
  "budgetConstraints location totalBudget currentBudgetUsage =
     \<lparr> available = totalBudget - currentBudgetUsage,
       maxPercent = (case location of
                       None \<Rightarrow> 12
                     | Some l \<Rightarrow> if js_includes (toLowerCase l) ''india'' then 10 else 12) \<rparr>"

record RaiseRecommendation =
  recommendedAmount :: rat

text \<open>
  Modelled from the spec: \<open>EmployeeCalculations.calculateOptimalRaise\<close>, whose file
  (utils/calculations) is not among the sources. The spec (section 4.5, raise recommendation)
  gives no formula for the amount that scales with the total risk and with the distance below
  grade-mid, so that amount is the parameter \<open>scaled\<close>. The spec floors it at 0 for an
  employee above grade-mid with low risk, and lets no recommendation exceed \<open>maxPercent\<close> of
  the current salary or the available budget. Only the recommended amount is modelled.
\<close>

definition calculateOptimalRaise :: "rat \<Rightarrow> bool \<Rightarrow> rat \<Rightarrow> BudgetConstraints \<Rightarrow> RaiseRecommendation" where
  "calculateOptimalRaise scaled aboveMidLowRisk currentSalary constraints =
     (let floored = (if aboveMidLowRisk then max 0 scaled else scaled)
      in \<lparr> recommendedAmount =
             min (min floored (currentSalary * maxPercent constraints / 100))
                 (available constraints) \<rparr>)"

section \<open>Example inputs\<close>

text \<open>Collaborators that accept the file, decode a CSV file to the given rows and accept its structure.\<close>

definition acceptingEnv :: "raw_row list \<Rightarrow> file_type \<Rightarrow> collaborators" where
  "acceptingEnv rows detected =
     \<lparr> validateFile = (\<lambda>file. Inr []),
       parseCSV = (\<lambda>file. Inr \<lparr> parsedData = rows, parseErrors = [] \<rparr>),
       parseXLSX = (\<lambda>file. Inr rows),
       validateDataStructure = (\<lambda>rawData fileName. Inr \<lparr> structureValid = True, structureErrors = [],
                                  structureWarnings = [], detectedFormat = detected \<rparr>) \<rparr>"

definition csvFile :: File where
  "csvFile = \<lparr> name = ''export.csv'', content = [] \<rparr>"

definition docxFile :: File where
  "docxFile = \<lparr> name = ''report.docx'', content = [] \<rparr>"

definition riskScoreRows :: "raw_row list" where
  "riskScoreRows = [[(''employee_id'', ''E1''), (''retention_risk'', ''50'')]]"

text \<open>The same collaborators with one of them throwing.\<close>

definition failingPreValidation :: collaborators where
  "failingPreValidation =
     (acceptingEnv riskScoreRows Salary) \<lparr> validateFile := (\<lambda>file. Inl (JsError ''file is not readable'')) \<rparr>"

definition failingDecoder :: collaborators where
  "failingDecoder = (acceptingEnv riskScoreRows Salary) \<lparr> parseCSV := (\<lambda>file. Inl NonError) \<rparr>"

definition failingStructureValidation :: collaborators where
  "failingStructureValidation =
     (acceptingEnv riskScoreRows Salary)
       \<lparr> validateDataStructure := (\<lambda>rawData fileName. Inl (JsError ''rows is not iterable'')) \<rparr>"

definition mixedRows :: "raw_row list" where
  "mixedRows = [[(''employee_id'', ''E1''), (''name'', ''Ann Lee''), (''salary'', ''50000'')],
                [(''employee_id'', ''E2''), (''name'', ''''), (''salary'', '''')]]"

definition completeRows :: "raw_row list" where
  "completeRows = [[(''employee_id'', ''E1''), (''name'', ''Ann Lee''), (''salary'', ''50000'')]]"

text \<open>What the two tables make of these rows.\<close>

definition mixedSalaryData :: "mapped_row list" where
  "mixedSalaryData =
     [[(''employeeId'', JStr ''E1''), (''name'', JStr ''Ann Lee''), (''baseSalary'', JNum (Fin 50000))],
      [(''employeeId'', JStr ''E2''), (''name'', JStr ''''), (''baseSalary'', JStr '''')]]"

definition mixedPerformanceData :: "mapped_row list" where
  "mixedPerformanceData =
     [[(''employeeId'', JStr ''E1''), (''name'', JStr ''Ann Lee'')],
      [(''employeeId'', JStr ''E2''), (''name'', JStr '''')]]"

definition completeSalaryData :: "mapped_row list" where
  "completeSalaryData =
     [[(''employeeId'', JStr ''E1''), (''name'', JStr ''Ann Lee''), (''baseSalary'', JNum (Fin 50000))]]"

definition completePerformanceData :: "mapped_row list" where
  "completePerformanceData = [[(''employeeId'', JStr ''E1''), (''name'', JStr ''Ann Lee'')]]"

definition noSalaryRows :: "raw_row list" where
  "noSalaryRows = [[(''employee_id'', ''E7''), (''name'', ''Bo Chen''), (''currency'', ''USD'')]]"

text \<open>A combined export: salary columns and performance columns in one sheet.\<close>

definition combinedRows :: "raw_row list" where
  "combinedRows =
     [[(''employee_id'', ''E1''), (''name'', ''Ann Lee''), (''salary'', ''50000''),
       (''performance rating'', ''''), (''retention_risk'', ''No''), (''business_impact'', ''0'')],
      [(''employee_id'', ''E2''), (''name'', ''Raj Rao''), (''salary'', ''61000''),
       (''performance rating'', ''Exceeds''), (''retention_risk'', ''Yes''), (''business_impact'', ''4'')]]"

definition combinedSalaryData :: "mapped_row list" where
  "combinedSalaryData =
     [[(''employeeId'', JStr ''E1''), (''name'', JStr ''Ann Lee''), (''baseSalary'', JNum (Fin 50000))],
      [(''employeeId'', JStr ''E2''), (''name'', JStr ''Raj Rao''), (''baseSalary'', JNum (Fin 61000))]]"

definition combinedPerformanceData :: "mapped_row list" where
  "combinedPerformanceData =
     [[(''employeeId'', JStr ''E1''), (''name'', JStr ''Ann Lee''), (''performanceRating'', JStr ''''),
       (''retentionRisk'', JNum (Fin 0)), (''businessImpactScore'', JNum (Fin 0))],
      [(''employeeId'', JStr ''E2''), (''name'', JStr ''Raj Rao''),
       (''performanceRating'', JStr ''Exceeds''), (''retentionRisk'', JNum (Fin 1)),
       (''businessImpactScore'', JNum (Fin 4))]]"

definition combinedMerged :: "mapped_row list" where
  "combinedMerged =
     [[(''employeeId'', JStr ''E1''), (''name'', JStr ''Ann Lee''), (''baseSalary'', JNum (Fin 50000))],
      [(''employeeId'', JStr ''E2''), (''name'', JStr ''Raj Rao''), (''baseSalary'', JNum (Fin 61000)),
       (''performanceRating'', JStr ''Exceeds''), (''businessImpactScore'', JNum (Fin 4)),
       (''retentionRisk'', JNum (Fin 1))]]"

text \<open>
  The sheet of scenario A, as the CSV decoder hands it over: its headers in lower case.
\<close>

definition scenarioRows :: "raw_row list" where
  "scenarioRows =
     [[(''employee number'', ''E100''), (''employee full name'', ''Jane Doe''),
       (''base pay all countries'', ''95000''), (''currency'', ''USD'')]]"

text \<open>
  A combined sheet of one row with a numeric retention risk and no base salary.
\<close>

definition riskNoSalaryRows :: "raw_row list" where
  "riskNoSalaryRows =
     [[(''employee_id'', ''E9''), (''name'', ''Kim Roy''), (''performance rating'', ''Exceeds''),
       (''retention_risk'', ''50'')]]"

section \<open>Evaluation rules\<close>

lemmas js_string_eval =
  trim_def trimStart_def toLowerCase_def toLowerChar_def isWhiteSpace_def char_of_def bit_Suc_0_iff

lemmas js_number_eval =
  parseFloat_def strDecimalLiteral_def optSign_def isDigit_def digitsValue_def digitValue_def
  exponentPart_def pow10_def isNaN_def

lemmas js_coerce_eval =
  coerceValue_def coerceNumeric_def coercePerformanceRating_def coerceRetentionRisk_def
  numericFields_def cleanValue_def notAFunction_def

section \<open>Value coercion\<close>

lemma coerce_baseSalary_currency:
  "coerceValue ''baseSalary'' ''$82,500.00'' = Inr (JNum (Fin 82500))"
  by (simp add: js_string_eval js_number_eval js_coerce_eval)

lemma coerce_performanceRating_percent:
  "coerceValue ''performanceRating'' ''87%'' = Inr (JNum (Fin (87 / 100)))"
  by (simp add: js_string_eval js_number_eval js_coerce_eval)

lemma coerce_retentionRisk_yes:
  "coerceValue ''retentionRisk'' ''Yes'' = Inr (JNum (Fin 1))"
  by (simp add: js_string_eval js_number_eval js_coerce_eval)

text \<open>
  The only way a cell makes the coercion throw: the field is \<open>retentionRisk\<close> and the text has
  a numeric reading, so that the yes/no block calls \<open>toLowerCase\<close> on a number.
\<close>

lemma coerceValue_throws_iff:
  "coerceValue f v = Inl e \<longleftrightarrow>
     f = ''retentionRisk'' \<and> v \<noteq> [] \<and> parseFloat (cleanValue v) \<noteq> NaN
     \<and> e = notAFunction ''toLowerCase''"
  by (auto simp: coerceValue_def coerceNumeric_def coercePerformanceRating_def
        coerceRetentionRisk_def numericFields_def isNaN_def Let_def split: if_splits)

lemma coerce_unparsable_numeric_kept:
  assumes "f \<in> set numericFields" "f \<noteq> ''retentionRisk''" "parseFloat (cleanValue v) = NaN"
  shows "coerceValue f v = Inr (JStr v)"
  using assms
  by (auto simp: coerceValue_def coerceNumeric_def coercePerformanceRating_def
        coerceRetentionRisk_def numericFields_def isNaN_def)

text \<open>
  C6. The three coercions of the claim hold (the lemmas above), but the coercion can throw:
  a \<open>retentionRisk\<close> cell with the text \<open>50\<close> is first turned into the number 50, and the
  yes/no block then calls \<open>toLowerCase\<close> on that number.
\<close>

theorem C6_numeric_retentionRisk_throws:
  "mapColumns [[(''retention_risk'', ''50'')]] PERFORMANCE_COLUMN_MAPPINGS
     = Inl (JsError ''value.toLowerCase is not a function'')"
  by (simp add: js_string_eval js_number_eval js_coerce_eval objectGet_def
        PERFORMANCE_COLUMN_MAPPINGS_def)

section \<open>Lengths through the pipeline\<close>

lemma mapColumns_length:
  "mapColumns rows m = Inr out \<Longrightarrow> length out = length rows"
  by (induction rows arbitrary: out) (auto split: sum.splits)

lemma mergePerformance_length [simp]:
  "length (mergePerformance s p) = length s"
  by (induction s p rule: mergePerformance.induct) auto

lemma mapSalary_length:
  "mapSalary rawData = Inr s \<Longrightarrow> length s = length rawData"
  by (auto simp: mapSalary_def mapColumns_length split: sum.splits if_splits)

lemma validateSalaryData_length [simp]: "length (validateSalaryData rows) = length rows"
  by (simp add: validateSalaryData_def)

lemma validatePerformanceData_length [simp]: "length (validatePerformanceData rows) = length rows"
  by (simp add: validatePerformanceData_def)

lemma salaryStage_lengths:
  assumes "salaryStage e f rawData = Inr (m, v, t)"
  shows "length m = length v \<and> length v \<le> length rawData"
  using assms
  by (auto simp: salaryStage_def Let_def mapSalary_length mapColumns_length
           split: sum.splits if_splits)

lemma performanceStage_lengths:
  assumes "performanceStage (m, v, t) rawData = Inr (m', v', t')"
    and "length m = length v \<and> length v \<le> length rawData"
  shows "length m' = length v' \<and> length v' \<le> length rawData"
  using assms
  by (auto simp: performanceStage_def mapColumns_length split: sum.splits if_splits)

lemma mapAndValidate_lengths:
  assumes "mapAndValidate e f rawData = Inr (m, v, t)"
  shows "length m = length v \<and> length v \<le> length rawData"
proof -
  from assms obtain m0 v0 t0 where s: "salaryStage e f rawData = Inr (m0, v0, t0)"
    and p: "performanceStage (m0, v0, t0) rawData = Inr (m, v, t)"
    by (auto simp: mapAndValidate_def split: sum.splits)
  from salaryStage_lengths [OF s] performanceStage_lengths [OF p] show ?thesis by blast
qed

lemma filterValid_same_length:
  "length m = length v \<Longrightarrow>
     filterValid m v = Inr (map fst (filter (\<lambda>(row, result). isValid result) (zip m v)))"
  by (induction m v rule: list_induct2) auto

lemma length_filter_zip_snd:
  "length m = length v \<Longrightarrow>
     length (filter (\<lambda>(row, result). P result) (zip m v)) = length (filter P v)"
  by (induction m v rule: list_induct2) auto

lemma filterValid_length:
  assumes "length m = length v" "filterValid m v = Inr kept"
  shows "length kept = length (filter isValid v)"
  using assms length_filter_zip_snd [of m v isValid]
  by (auto simp: filterValid_same_length)

text \<open>
  C4. Every result of \<open>parseFile\<close>, whichever branch returns it, has
  \<open>validRows \<le> rowCount\<close> and as many rows in \<open>data\<close> as \<open>validRows\<close> says.
\<close>

theorem C4_counts_invariant:
  "validRows (parseFile env file expectedType) \<le> rowCount (parseFile env file expectedType)
   \<and> length (data (parseFile env file expectedType)) = validRows (parseFile env file expectedType)"
proof (cases "parseFileBody env file expectedType")
  case (Inl e)
  then show ?thesis by (simp add: parseFile_def)
next
  case (Inr r)
  have "validRows r \<le> rowCount r \<and> length (data r) = validRows r"
    using Inr
    by (auto simp: parseFileBody_def filterValid_length
          split: sum.splits if_splits prod.splits
          dest!: mapAndValidate_lengths
          intro: order_trans [OF length_filter_le])
  with Inr show ?thesis by (simp add: parseFile_def)
qed

section \<open>Exceptions and early returns of the pipeline\<close>

lemmas pipeline_eval =
  parseFile_def parseFileBody_def decodeFile_def fileExtension_def messageOr_def
  mapAndValidate_def salaryStage_def performanceStage_def mapSalary_def hasPerformanceColumns_def
  acceptingEnv_def csvFile_def docxFile_def

lemma riskScoreRows_throw:
  "mapColumns riskScoreRows PERFORMANCE_COLUMN_MAPPINGS = Inl (JsError ''value.toLowerCase is not a function'')"
  by (simp add: riskScoreRows_def js_string_eval js_number_eval js_coerce_eval objectGet_def
        PERFORMANCE_COLUMN_MAPPINGS_def)

lemma filterValid_total:
  "mapAndValidate e f rawData = Inr (m, v, t) \<Longrightarrow>
     filterValid m v = Inr (map fst (filter (\<lambda>(row, result). isValid result) (zip m v)))"
  by (simp add: filterValid_same_length mapAndValidate_lengths)

text \<open>
  The outer handler is reached only by an exception of the pre-validation or of the structure
  validation: the decoders and the column mapping have handlers of their own, and the final
  filter never reads past the validation results.
\<close>

lemma outer_handler_reached_iff:
  "parseFileBody env upload expectedType = Inl e \<longleftrightarrow>
     validateFile env upload = Inl e
     \<or> (\<exists>issues rawData.
           validateFile env upload = Inr issues \<and> \<not> list_ex (\<lambda>i. severity i = ''ERROR'') issues
           \<and> decodeFile env upload = Inr rawData \<and> rawData \<noteq> []
           \<and> validateDataStructure env rawData (name upload) = Inl e)"
  by (auto simp: parseFileBody_def filterValid_total split: sum.splits if_splits prod.splits)

text \<open>
  C1, as stated, fails: an exception thrown while the columns are mapped is caught by the inner
  handler, which reports the number of decoded rows as \<open>rowCount\<close>, not 0.
\<close>

theorem C1_counterexample:
  "mapColumns riskScoreRows PERFORMANCE_COLUMN_MAPPINGS
     = Inl (JsError ''value.toLowerCase is not a function'')
   \<and> rowCount (parseFile (acceptingEnv riskScoreRows Performance) csvFile Performance) = 1"
  by (simp add: riskScoreRows_throw pipeline_eval js_string_eval) (simp add: riskScoreRows_def)

text \<open>
  C1, amended. \<open>parseFile\<close> is a total function of its inputs and of what its collaborators
  do, so it always returns a result. An exception thrown by the pre-validation, by a decoder or
  by the structure validation gives a result with \<open>rowCount = 0\<close>, \<open>validRows = 0\<close>, no data and a
  non-empty error list; an exception thrown while the columns are mapped gives the same with
  \<open>rowCount\<close> the number of decoded rows.
\<close>

theorem C1_exceptions_become_results:
  "(validateFile env upload = Inl e \<longrightarrow>
      parseFile env upload expectedType =
        \<lparr> fileName = name upload, fileType = Unknown, rowCount = 0, validRows = 0,
          errors = [''Critical parsing error: '' @ messageOr e ''Unknown error occurred'',
                    ''Please check your file format and try again. Supported formats: CSV, XLSX, XLS'',
                    ''Ensure your file contains the required columns: employeeId, name, and relevant data fields''],
          data = [] \<rparr>)
   \<and> (validateFile env upload = Inr issues \<and> \<not> list_ex (\<lambda>i. severity i = ''ERROR'') issues
        \<and> decodeFile env upload = Inl e \<longrightarrow>
      parseFile env upload expectedType =
        \<lparr> fileName = name upload, fileType = Unknown, rowCount = 0, validRows = 0,
          errors = [''Failed to parse file: '' @ messageOr e ''Unknown parsing error''],
          data = [] \<rparr>)
   \<and> (validateFile env upload = Inr issues \<and> \<not> list_ex (\<lambda>i. severity i = ''ERROR'') issues
        \<and> decodeFile env upload = Inr rawData \<and> rawData \<noteq> []
        \<and> validateDataStructure env rawData (name upload) = Inl e \<longrightarrow>
      parseFile env upload expectedType =
        \<lparr> fileName = name upload, fileType = Unknown, rowCount = 0, validRows = 0,
          errors = [''Critical parsing error: '' @ messageOr e ''Unknown error occurred'',
                    ''Please check your file format and try again. Supported formats: CSV, XLSX, XLS'',
                    ''Ensure your file contains the required columns: employeeId, name, and relevant data fields''],
          data = [] \<rparr>)
   \<and> (validateFile env upload = Inr issues \<and> \<not> list_ex (\<lambda>i. severity i = ''ERROR'') issues
        \<and> decodeFile env upload = Inr rawData \<and> rawData \<noteq> []
        \<and> validateDataStructure env rawData (name upload) = Inr sv \<and> structureValid sv
        \<and> mapAndValidate expectedType
              (if expectedType = Unknown then detectedFormat sv else expectedType) rawData
            = Inl (e, finalType) \<longrightarrow>
      parseFile env upload expectedType =
        \<lparr> fileName = name upload, fileType = finalType, rowCount = length rawData, validRows = 0,
          errors = [''Column mapping failed: '' @ messageOr e ''Unknown mapping error''],
          data = [] \<rparr>)"
  by (intro conjI impI; (elim conjE)?)
     (simp_all add: parseFile_def parseFileBody_def filterValid_total)

theorem C1_exceptions_become_results_witness:
  "parseFile failingPreValidation csvFile Salary
     = \<lparr> fileName = ''export.csv'', fileType = Unknown, rowCount = 0, validRows = 0,
         errors = [''Critical parsing error: file is not readable'',
                   ''Please check your file format and try again. Supported formats: CSV, XLSX, XLS'',
                   ''Ensure your file contains the required columns: employeeId, name, and relevant data fields''],
         data = [] \<rparr>
   \<and> parseFile failingDecoder csvFile Salary
     = \<lparr> fileName = ''export.csv'', fileType = Unknown, rowCount = 0, validRows = 0,
         errors = [''Failed to parse file: Unknown parsing error''], data = [] \<rparr>
   \<and> parseFile failingStructureValidation csvFile Salary
     = \<lparr> fileName = ''export.csv'', fileType = Unknown, rowCount = 0, validRows = 0,
         errors = [''Critical parsing error: rows is not iterable'',
                   ''Please check your file format and try again. Supported formats: CSV, XLSX, XLS'',
                   ''Ensure your file contains the required columns: employeeId, name, and relevant data fields''],
         data = [] \<rparr>
   \<and> parseFile (acceptingEnv riskScoreRows Salary) csvFile Performance
     = \<lparr> fileName = ''export.csv'', fileType = Performance, rowCount = 1, validRows = 0,
         errors = [''Column mapping failed: value.toLowerCase is not a function''], data = [] \<rparr>"
proof -
  let ?sv = "\<lparr> structureValid = True, structureErrors = [], structureWarnings = [],
               detectedFormat = Salary \<rparr>"
  have csv: "fileExtension csvFile = ''csv''"
    by (simp add: fileExtension_def csvFile_def js_string_eval)
  have rows: "riskScoreRows \<noteq> []" "length riskScoreRows = 1"
    by (simp_all add: riskScoreRows_def)
  have m: "mapAndValidate Performance (if Performance = Unknown then detectedFormat ?sv else Performance)
             riskScoreRows
           = Inl (JsError ''value.toLowerCase is not a function'', Performance)"
    by (simp add: mapAndValidate_def salaryStage_def performanceStage_def riskScoreRows_throw)
  have 1: "validateFile failingPreValidation csvFile = Inl (JsError ''file is not readable'')"
    by (simp add: failingPreValidation_def acceptingEnv_def)
  have 2: "validateFile failingDecoder csvFile = Inr []" "decodeFile failingDecoder csvFile = Inl NonError"
    by (simp_all add: failingDecoder_def acceptingEnv_def decodeFile_def csv)
  have 3: "validateFile failingStructureValidation csvFile = Inr []"
    "decodeFile failingStructureValidation csvFile = Inr riskScoreRows"
    "validateDataStructure failingStructureValidation riskScoreRows (name csvFile)
       = Inl (JsError ''rows is not iterable'')"
    by (simp_all add: failingStructureValidation_def acceptingEnv_def decodeFile_def csv)
  have 4: "validateFile (acceptingEnv riskScoreRows Salary) csvFile = Inr []"
    "decodeFile (acceptingEnv riskScoreRows Salary) csvFile = Inr riskScoreRows"
    "validateDataStructure (acceptingEnv riskScoreRows Salary) riskScoreRows (name csvFile) = Inr ?sv"
    by (simp_all add: acceptingEnv_def decodeFile_def csv)
  have n: "name csvFile = ''export.csv''" by (simp add: csvFile_def)
  show ?thesis
    using C1_exceptions_become_results [where env = failingPreValidation and upload = csvFile
        and expectedType = Salary and e = "JsError ''file is not readable''"]
      C1_exceptions_become_results [where env = failingDecoder and upload = csvFile
        and expectedType = Salary and e = NonError and issues = "[]"]
      C1_exceptions_become_results [where env = failingStructureValidation and upload = csvFile
        and expectedType = Salary and e = "JsError ''rows is not iterable''" and issues = "[]"
        and rawData = riskScoreRows]
      C1_exceptions_become_results [where env = "acceptingEnv riskScoreRows Salary"
        and upload = csvFile and expectedType = Performance and issues = "[]"
        and rawData = riskScoreRows and sv = ?sv
        and e = "JsError ''value.toLowerCase is not a function''" and finalType = Performance]
      1 2 3 4 m rows n
    by (simp add: messageOr_def)
qed

text \<open>
  C3, as stated, fails: the message about the unsupported extension is thrown inside the
  decoding block, whose handler puts \<open>Failed to parse file:\<close> in front of it.
\<close>

theorem C3_counterexample:
  "errors (parseFile (acceptingEnv [] Unknown) docxFile Salary)
     = [''Failed to parse file: Unsupported file type: docx. Please use CSV, XLSX, or XLS files.'']
   \<and> errors (parseFile (acceptingEnv [] Unknown) docxFile Salary)
     \<noteq> [''Unsupported file type: docx. Please use CSV, XLSX, or XLS files.'']"
  by (simp add: pipeline_eval js_string_eval)

text \<open>
  C3, amended. A file whose extension is not csv, xlsx or xls gives no data and zero counts;
  when the pre-validation reports no error, the error list is the one message that names the
  extension and the supported formats, behind the prefix \<open>Failed to parse file:\<close>.
\<close>

theorem C3_unsupported_extension:
  assumes "fileExtension upload \<notin> {''csv'', ''xlsx'', ''xls''}"
  shows "data (parseFile env upload expectedType) = []
         \<and> rowCount (parseFile env upload expectedType) = 0
         \<and> validRows (parseFile env upload expectedType) = 0
         \<and> (validateFile env upload = Inr issues \<and> \<not> list_ex (\<lambda>i. severity i = ''ERROR'') issues \<longrightarrow>
              errors (parseFile env upload expectedType)
                = [''Failed to parse file: Unsupported file type: '' @ fileExtension upload
                     @ ''. Please use CSV, XLSX, or XLS files.''])"
  using assms
  by (auto simp: parseFile_def parseFileBody_def decodeFile_def messageOr_def split: sum.splits)

theorem C3_unsupported_extension_witness:
  "fileExtension docxFile = ''docx''
   \<and> data (parseFile (acceptingEnv [] Unknown) docxFile Salary) = []
   \<and> errors (parseFile (acceptingEnv [] Unknown) docxFile Salary)
       = [''Failed to parse file: Unsupported file type: docx. Please use CSV, XLSX, or XLS files.'']"
proof -
  have x: "fileExtension docxFile = ''docx''"
    by (simp add: fileExtension_def docxFile_def js_string_eval)
  then have "fileExtension docxFile \<notin> {''csv'', ''xlsx'', ''xls''}" by simp
  moreover have "validateFile (acceptingEnv [] Unknown) docxFile = Inr []"
    by (simp add: acceptingEnv_def)
  ultimately show ?thesis
    using C3_unsupported_extension [where upload = docxFile and env = "acceptingEnv [] Unknown"
        and expectedType = Salary and issues = "[]"] x
    by simp
qed

section \<open>Choice of the schema\<close>

lemmas table_eval = objectGet_def SALARY_COLUMN_MAPPINGS_def PERFORMANCE_COLUMN_MAPPINGS_def

lemmas validation_eval =
  validateSalaryData_def validatePerformanceData_def validateSalaryRow_def validatePerformanceRow_def
  getProp_def validityRate_def orRowLabel_def

lemma csvFile_extension: "fileExtension csvFile = ''csv''"
  by (simp add: fileExtension_def csvFile_def js_string_eval)

lemma acceptingEnv_csv:
  "validateFile (acceptingEnv rows detected) csvFile = Inr []"
  "decodeFile (acceptingEnv rows detected) csvFile = Inr rows"
  "validateDataStructure (acceptingEnv rows detected) rows (name csvFile)
     = Inr \<lparr> structureValid = True, structureErrors = [], structureWarnings = [],
             detectedFormat = detected \<rparr>"
  by (simp_all add: acceptingEnv_def decodeFile_def csvFile_extension)

lemma mixedRows_mapped:
  "mapColumns mixedRows SALARY_COLUMN_MAPPINGS = Inr mixedSalaryData"
  "mapColumns mixedRows PERFORMANCE_COLUMN_MAPPINGS = Inr mixedPerformanceData"
  by (simp_all add: mixedRows_def mixedSalaryData_def mixedPerformanceData_def
        js_string_eval js_number_eval js_coerce_eval table_eval)

lemma completeRows_mapped:
  "mapColumns completeRows SALARY_COLUMN_MAPPINGS = Inr completeSalaryData"
  "mapColumns completeRows PERFORMANCE_COLUMN_MAPPINGS = Inr completePerformanceData"
  by (simp_all add: completeRows_def completeSalaryData_def completePerformanceData_def
        js_string_eval js_number_eval js_coerce_eval table_eval)

lemma plain_headers:
  "\<not> hasPerformanceColumns mixedRows" "\<not> hasPerformanceColumns completeRows"
  by (simp_all add: hasPerformanceColumns_def mixedRows_def completeRows_def js_string_eval)

lemma example_rates:
  "validityRate (validateSalaryData mixedSalaryData) = 1 / 2"
  "validityRate (validatePerformanceData mixedPerformanceData) = 1"
  "validityRate (validateSalaryData completeSalaryData) = 1"
  "validityRate (validatePerformanceData completePerformanceData) = 1"
  by (simp_all add: validation_eval mixedSalaryData_def mixedPerformanceData_def
        completeSalaryData_def completePerformanceData_def)

text \<open>The rows \<open>data\<close> keeps of a mapping: those whose validation result is valid.\<close>

lemma filterValid_validated:
  "filterValid rows (validateSalaryData rows)
     = Inr (map fst (filter (\<lambda>(row, result). isValid result) (zip rows (validateSalaryData rows))))"
  "filterValid rows (validatePerformanceData rows)
     = Inr (map fst (filter (\<lambda>(row, result). isValid result) (zip rows (validatePerformanceData rows))))"
  by (simp_all add: filterValid_same_length)

text \<open>
  C2, as stated, fails. With the detected format unknown or salary, a salary validity rate of
  one half ends the choice although the performance rate is 1; with the detected format
  performance, the performance mapping is taken although the two rates are equal.
\<close>

theorem C2_counterexample:
  "mapColumns mixedRows SALARY_COLUMN_MAPPINGS = Inr mixedSalaryData
   \<and> mapColumns mixedRows PERFORMANCE_COLUMN_MAPPINGS = Inr mixedPerformanceData
   \<and> validityRate (validateSalaryData mixedSalaryData) = 1 / 2
   \<and> validityRate (validatePerformanceData mixedPerformanceData) = 1
   \<and> fileType (parseFile (acceptingEnv mixedRows Unknown) csvFile Unknown) = Salary
   \<and> fileType (parseFile (acceptingEnv mixedRows Salary) csvFile Unknown) = Salary
   \<and> mapColumns completeRows SALARY_COLUMN_MAPPINGS = Inr completeSalaryData
   \<and> mapColumns completeRows PERFORMANCE_COLUMN_MAPPINGS = Inr completePerformanceData
   \<and> validityRate (validateSalaryData completeSalaryData) = 1
   \<and> validityRate (validatePerformanceData completePerformanceData) = 1
   \<and> fileType (parseFile (acceptingEnv completeRows Performance) csvFile Unknown) = Performance"
proof -
  have ne: "mixedRows \<noteq> []" "completeRows \<noteq> []"
    by (simp_all add: mixedRows_def completeRows_def)
  have types:
    "fileType (parseFile (acceptingEnv mixedRows Unknown) csvFile Unknown) = Salary"
    "fileType (parseFile (acceptingEnv mixedRows Salary) csvFile Unknown) = Salary"
    "fileType (parseFile (acceptingEnv completeRows Performance) csvFile Unknown) = Performance"
    by (simp_all add: parseFile_def parseFileBody_def acceptingEnv_csv ne
          mapAndValidate_def salaryStage_def performanceStage_def mapSalary_def plain_headers
          mixedRows_mapped completeRows_mapped example_rates filterValid_validated Let_def)
  show ?thesis
    using mixedRows_mapped completeRows_mapped example_rates types by simp
qed

text \<open>
  C2, amended. With expected type unknown and no exception from either mapping: a detected
  format of performance selects the performance mapping; otherwise the salary mapping is kept
  as soon as its validity rate is above one tenth, and only below that are the two rates
  compared, the performance mapping winning when its rate is strictly higher.
\<close>

theorem C2_schema_choice:
  assumes "validateFile env upload = Inr issues"
    and "\<not> list_ex (\<lambda>i. severity i = ''ERROR'') issues"
    and "decodeFile env upload = Inr rawData" and "rawData \<noteq> []"
    and "validateDataStructure env rawData (name upload) = Inr sv" and "structureValid sv"
    and "mapSalary rawData = Inr salaryData"
    and "mapColumns rawData PERFORMANCE_COLUMN_MAPPINGS = Inr performanceData"
  shows "fileType (parseFile env upload Unknown) =
           (if detectedFormat sv = Performance then Performance
            else if validityRate (validateSalaryData salaryData) > 1 / 10 then Salary
            else if validityRate (validatePerformanceData performanceData)
                      > validityRate (validateSalaryData salaryData) then Performance
            else Salary)
         \<and> data (parseFile env upload Unknown) =
           (if fileType (parseFile env upload Unknown) = Performance
            then map fst (filter (\<lambda>(row, result). isValid result)
                           (zip performanceData (validatePerformanceData performanceData)))
            else map fst (filter (\<lambda>(row, result). isValid result)
                           (zip salaryData (validateSalaryData salaryData))))"
proof (cases "detectedFormat sv")
  case Performance
  with assms show ?thesis
    by (simp add: parseFile_def parseFileBody_def mapAndValidate_def salaryStage_def
          performanceStage_def filterValid_validated)
next
  case Salary
  with assms show ?thesis
    by (simp add: parseFile_def parseFileBody_def mapAndValidate_def salaryStage_def
          performanceStage_def filterValid_validated Let_def)
next
  case Unknown
  with assms show ?thesis
    by (simp add: parseFile_def parseFileBody_def mapAndValidate_def salaryStage_def
          performanceStage_def filterValid_validated Let_def)
qed

theorem C2_schema_choice_witness:
  "fileType (parseFile (acceptingEnv mixedRows Unknown) csvFile Unknown) = Salary
   \<and> data (parseFile (acceptingEnv mixedRows Unknown) csvFile Unknown)
     = [[(''employeeId'', JStr ''E1''), (''name'', JStr ''Ann Lee''), (''baseSalary'', JNum (Fin 50000))]]"
proof -
  have "mapSalary mixedRows = Inr mixedSalaryData"
    by (simp add: mapSalary_def mixedRows_mapped plain_headers)
  from C2_schema_choice [OF acceptingEnv_csv(1) _ acceptingEnv_csv(2) _ acceptingEnv_csv(3) _
      this mixedRows_mapped(2)]
  have "fileType (parseFile (acceptingEnv mixedRows Unknown) csvFile Unknown) = Salary
     \<and> data (parseFile (acceptingEnv mixedRows Unknown) csvFile Unknown)
       = map fst (filter (\<lambda>(row, result). isValid result)
                    (zip mixedSalaryData (validateSalaryData mixedSalaryData)))"
    by (simp add: example_rates mixedRows_def)
  then show ?thesis
    by (simp add: mixedSalaryData_def validation_eval)
qed

section \<open>Properties of mapped and merged rows\<close>

lemma getProp_update:
  "getProp (AList.update f v row) g = (if g = f then Some v else getProp row g)"
  by (simp add: getProp_def update_conv')

text \<open>A field that no header of the row maps to keeps the value it had.\<close>

lemma mapRow_untouched:
  assumes "mapRow m row acc = Inr r"
    and "\<forall>(k, v) \<in> set row. objectGet m (trim (toLowerCase k)) \<noteq> Some f"
  shows "getProp r f = getProp acc f"
  using assms
proof (induction row arbitrary: acc)
  case Nil
  then show ?case by simp
next
  case (Cons kv row)
  obtain k v where kv: "kv = (k, v)" by (cases kv)
  show ?case
  proof (cases "objectGet m (trim (toLowerCase k))")
    case None
    with Cons kv show ?thesis by simp
  next
    case (Some g)
    with Cons.prems kv have g: "g \<noteq> f" by auto
    from Cons.prems kv Some obtain v' where
      "mapRow m row (AList.update g v' acc) = Inr r"
      by (auto split: sum.splits)
    with Cons.IH [of "AList.update g v' acc"] Cons.prems(2) g
    show ?thesis by (simp add: getProp_update)
  qed
qed

text \<open>A field whose cells are all empty ends up absent or empty.\<close>

lemma mapRow_empty_cells:
  assumes "mapRow m row acc = Inr r"
    and "\<forall>(k, v) \<in> set row. objectGet m (trim (toLowerCase k)) = Some f \<longrightarrow> v = []"
    and "\<not> truthy (getProp acc f)"
  shows "\<not> truthy (getProp r f)"
  using assms
proof (induction row arbitrary: acc)
  case Nil
  then show ?case by simp
next
  case (Cons kv row)
  obtain k v where kv: "kv = (k, v)" by (cases kv)
  show ?case
  proof (cases "objectGet m (trim (toLowerCase k))")
    case None
    with Cons kv show ?thesis by simp
  next
    case (Some g)
    from Cons.prems kv Some obtain v' where v': "coerceValue g v = Inr v'"
      and rest: "mapRow m row (AList.update g v' acc) = Inr r"
      by (auto split: sum.splits)
    have "\<not> truthy (getProp (AList.update g v' acc) f)"
    proof (cases "g = f")
      case True
      with Cons.prems(2) kv Some have "v = []" by auto
      with v' have "v' = JStr []" by (simp add: coerceValue_def)
      with True show ?thesis by (simp add: getProp_update)
    next
      case False
      with Cons.prems(3) show ?thesis by (simp add: getProp_update)
    qed
    with Cons.IH [OF rest] Cons.prems(2) show ?thesis by simp
  qed
qed

lemma getProp_empty [simp]: "getProp [] f = None"
  by (simp add: getProp_def)

text \<open>The merge writes the three performance fields only, and only truthy values.\<close>

lemma mergeField_getProp:
  "getProp (mergeField f p s) g =
     (if g = f \<and> truthy (getProp p f) then getProp p f else getProp s g)"
  by (auto simp: mergeField_def getProp_update split: option.splits)

lemma mergeRow_getProp:
  "getProp (mergeRow s p) g =
     (if g \<in> {''performanceRating'', ''businessImpactScore'', ''retentionRisk''} \<and> truthy (getProp p g)
      then getProp p g else getProp s g)"
  by (auto simp: mergeRow_def mergeField_getProp)

lemma mergePerformance_nth:
  "i < length s \<Longrightarrow> i < length p \<Longrightarrow> mergePerformance s p ! i = mergeRow (s ! i) (p ! i)"
proof (induction s p arbitrary: i rule: mergePerformance.induct)
  case (3 salaryRow salaryData performanceRow performanceData)
  then show ?case by (cases i) auto
qed auto

text \<open>The salary table has no header for the three performance fields.\<close>

lemma salary_table_targets:
  assumes "objectGet SALARY_COLUMN_MAPPINGS k = Some f"
  shows "f \<notin> {''performanceRating'', ''businessImpactScore'', ''retentionRisk''}"
proof (cases "map_of SALARY_COLUMN_MAPPINGS k")
  case None
  with assms have "f = ''function Object() { [native code] }'' \<or> f = ''[object Object]''"
    by (simp add: objectGet_def split: if_splits)
  then show ?thesis by auto
next
  case (Some g)
  with assms have "f = g" by (simp add: objectGet_def)
  with Some have "f \<in> set (map snd SALARY_COLUMN_MAPPINGS)"
    by (metis map_of_SomeD image_eqI snd_conv set_map)
  moreover have "''performanceRating'' \<notin> set (map snd SALARY_COLUMN_MAPPINGS)"
    "''businessImpactScore'' \<notin> set (map snd SALARY_COLUMN_MAPPINGS)"
    "''retentionRisk'' \<notin> set (map snd SALARY_COLUMN_MAPPINGS)"
    by (simp_all add: SALARY_COLUMN_MAPPINGS_def)
  ultimately show ?thesis by blast
qed

lemma mapColumns_nth:
  "mapColumns rows m = Inr out \<Longrightarrow> i < length rows \<Longrightarrow> mapRow m (rows ! i) [] = Inr (out ! i)"
proof (induction rows arbitrary: out i)
  case Nil
  then show ?case by simp
next
  case (Cons row rows)
  then show ?case by (cases i) (auto split: sum.splits)
qed

lemma salary_rows_lack_performance_fields:
  assumes "mapColumns rows SALARY_COLUMN_MAPPINGS = Inr out" and "i < length rows"
    and "f \<in> {''performanceRating'', ''businessImpactScore'', ''retentionRisk''}"
  shows "getProp (out ! i) f = None"
proof -
  have "\<forall>(k, v) \<in> set (rows ! i). objectGet SALARY_COLUMN_MAPPINGS (trim (toLowerCase k)) \<noteq> Some f"
    using salary_table_targets assms(3) by blast
  with mapRow_untouched [OF mapColumns_nth [OF assms(1,2)]] show ?thesis by simp
qed

text \<open>The salary table never throws: it maps no header to \<open>retentionRisk\<close>.\<close>

lemma mapRow_salary_total:
  "\<exists>r. mapRow SALARY_COLUMN_MAPPINGS row acc = Inr r"
proof (induction row arbitrary: acc)
  case Nil
  then show ?case by simp
next
  case (Cons kv row)
  obtain k v where kv: "kv = (k, v)" by (cases kv)
  show ?case
  proof (cases "objectGet SALARY_COLUMN_MAPPINGS (trim (toLowerCase k))")
    case None
    with Cons kv show ?thesis by simp
  next
    case (Some g)
    then have "g \<noteq> ''retentionRisk''" using salary_table_targets by blast
    then obtain v' where "coerceValue g v = Inr v'"
      using coerceValue_throws_iff [of g v] by (cases "coerceValue g v") auto
    with Cons.IH [of "AList.update g v' acc"] kv Some show ?thesis by simp
  qed
qed

lemma mapColumns_salary_total:
  "\<exists>out. mapColumns rows SALARY_COLUMN_MAPPINGS = Inr out"
proof (induction rows)
  case Nil
  then show ?case by simp
next
  case (Cons row rows)
  with mapRow_salary_total [of row "[]"] show ?case by auto
qed

section \<open>Row validity\<close>

lemma validateSalaryRow_valid_iff:
  "isValid (validateSalaryRow index row) \<longleftrightarrow>
     truthy (getProp row ''employeeId'')
     \<and> (truthy (getProp row ''name'') \<or> truthy (getProp row ''firstName'')
          \<or> truthy (getProp row ''lastName''))
     \<and> (\<exists>n. getProp row ''baseSalary'' = Some (JNum n) \<and> numGreater n 0)"
proof (cases "getProp row ''baseSalary''")
  case None
  then show ?thesis by (simp add: validateSalaryRow_def)
next
  case (Some b)
  show ?thesis
  proof (cases b)
    case (JStr s)
    with Some show ?thesis by (simp add: validateSalaryRow_def)
  next
    case (JNum n)
    with Some show ?thesis by (cases n) (auto simp: validateSalaryRow_def)
  qed
qed

text \<open>The same for the row at any index of the list \<open>validateSalaryData\<close> is given.\<close>

lemma validateSalaryData_nth:
  "i < length rows \<Longrightarrow> validateSalaryData rows ! i = validateSalaryRow i (rows ! i)"
  by (simp add: validateSalaryData_def nth_enumerate_eq)

lemma validateSalaryData_valid_iff:
  assumes "i < length rows"
  shows "isValid (validateSalaryData rows ! i) \<longleftrightarrow>
     truthy (getProp (rows ! i) ''employeeId'')
     \<and> (truthy (getProp (rows ! i) ''name'') \<or> truthy (getProp (rows ! i) ''firstName'')
          \<or> truthy (getProp (rows ! i) ''lastName''))
     \<and> (\<exists>n. getProp (rows ! i) ''baseSalary'' = Some (JNum n) \<and> numGreater n 0)"
  using assms by (simp only: validateSalaryData_nth validateSalaryRow_valid_iff)

lemma falsy_baseSalary_error:
  "\<not> truthy (getProp row ''baseSalary'') \<Longrightarrow>
     ''Valid base salary is required'' \<in> set (rowErrors (validateSalaryRow index row))
     \<and> \<not> isValid (validateSalaryRow index row)"
  by (simp add: validateSalaryRow_def)

lemma rowMessages_first: "rowMessages 0 msgs = map (\<lambda>m. ''Row 2: '' @ m) msgs"
  by (simp add: rowMessages_def showNat.simps char_of_def bit_Suc_0_iff)

lemma mapSalary_single_empty_cells:
  assumes "mapSalary [rawRow] = Inr salaryData"
    and "\<forall>(k, v) \<in> set rawRow.
            objectGet SALARY_COLUMN_MAPPINGS (trim (toLowerCase k)) = Some ''baseSalary'' \<longrightarrow> v = []"
  shows "\<exists>row. salaryData = [row] \<and> \<not> truthy (getProp row ''baseSalary'')"
proof -
  from assms(1) obtain r where r: "mapRow SALARY_COLUMN_MAPPINGS rawRow [] = Inr r"
    by (auto simp: mapSalary_def split: sum.splits)
  from mapRow_empty_cells [OF r assms(2)] have f: "\<not> truthy (getProp r ''baseSalary'')" by simp
  from assms(1) r have "salaryData = [r] \<or> (\<exists>p. salaryData = [mergeRow r p])"
    by (auto simp: mapSalary_def split: sum.splits if_splits)
  with f show ?thesis by (auto simp: mergeRow_getProp)
qed

text \<open>
  The result for a sheet of one row that the salary validation rejects, whenever the result is
  typed as salary.
\<close>

lemma single_row_salary_result:
  assumes "validateFile env upload = Inr issues"
    and "\<not> list_ex (\<lambda>i. severity i = ''ERROR'') issues"
    and "decodeFile env upload = Inr [rawRow]"
    and "validateDataStructure env [rawRow] (name upload) = Inr sv" and "structureValid sv"
    and "mapSalary [rawRow] = Inr [mapped]"
    and "mapColumns [rawRow] PERFORMANCE_COLUMN_MAPPINGS = Inr performanceData"
    and "\<not> isValid (validateSalaryRow 0 mapped)"
    and "fileType (parseFile env upload expectedType) = Salary"
  shows "parseFile env upload expectedType =
            \<lparr> fileName = name upload, fileType = Salary, rowCount = 1, validRows = 0,
              errors = rowMessages 0 (rowErrors (validateSalaryRow 0 mapped))
                       @ map (\<lambda>w. ''Warning: '' @ w) (allWarnings [validateSalaryRow 0 mapped] sv),
              data = [] \<rparr>"
proof -
  have rate: "validityRate (validateSalaryData [mapped]) = 0"
    using assms(8) by (simp add: validityRate_def validateSalaryData_def)
  show ?thesis
  proof (cases expectedType)
    case Salary
    with assms(1-6,8) show ?thesis
      by (simp add: parseFile_def parseFileBody_def mapAndValidate_def salaryStage_def
            performanceStage_def validateSalaryData_def allErrors_def)
  next
    case Performance
    with assms(1-7) have "fileType (parseFile env upload expectedType) = Performance"
      by (simp add: parseFile_def parseFileBody_def mapAndValidate_def salaryStage_def
            performanceStage_def filterValid_validated)
    with assms(9) show ?thesis by simp
  next
    case Unknown
    show ?thesis
    proof (cases "detectedFormat sv = Performance
                  \<or> validityRate (validatePerformanceData performanceData) > 0")
      case True
      with Unknown assms(1-7) rate have "fileType (parseFile env upload expectedType) = Performance"
        by (cases "detectedFormat sv")
           (auto simp: parseFile_def parseFileBody_def mapAndValidate_def salaryStage_def
              performanceStage_def filterValid_validated Let_def)
      with assms(9) show ?thesis by simp
    next
      case False
      with Unknown assms(1-6,8) assms(7) rate show ?thesis
        by (cases "detectedFormat sv")
           (simp_all add: parseFile_def parseFileBody_def mapAndValidate_def salaryStage_def
              performanceStage_def validateSalaryData_def allErrors_def Let_def)
    qed
  qed
qed

text \<open>
  A file of one data row that has no base-salary cell (or an empty one), when no mapping
  throws and the result is typed as salary: the row is rejected with the error
  \<open>Row 2: Valid base salary is required\<close>.
\<close>

lemma missing_base_salary_rejected:
  "(isValid (validateSalaryRow index row) \<longleftrightarrow>
      truthy (getProp row ''employeeId'')
      \<and> (truthy (getProp row ''name'') \<or> truthy (getProp row ''firstName'')
           \<or> truthy (getProp row ''lastName''))
      \<and> (\<exists>n. getProp row ''baseSalary'' = Some (JNum n) \<and> numGreater n 0))
   \<and> (validateFile env upload = Inr issues \<and> \<not> list_ex (\<lambda>i. severity i = ''ERROR'') issues
        \<and> decodeFile env upload = Inr [rawRow]
        \<and> validateDataStructure env [rawRow] (name upload) = Inr sv \<and> structureValid sv
        \<and> mapSalary [rawRow] = Inr salaryData
        \<and> mapColumns [rawRow] PERFORMANCE_COLUMN_MAPPINGS = Inr performanceData
        \<and> (\<forall>(k, v) \<in> set rawRow.
              objectGet SALARY_COLUMN_MAPPINGS (trim (toLowerCase k)) = Some ''baseSalary'' \<longrightarrow> v = [])
        \<and> fileType (parseFile env upload expectedType) = Salary
      \<longrightarrow> rowCount (parseFile env upload expectedType) = 1
          \<and> validRows (parseFile env upload expectedType) = 0
          \<and> data (parseFile env upload expectedType) = []
          \<and> ''Row 2: Valid base salary is required''
               \<in> set (errors (parseFile env upload expectedType)))"
  (is "?valid \<and> (?given \<longrightarrow> ?result)")
proof (rule conjI)
  show ?valid by (rule validateSalaryRow_valid_iff)
next
  show "?given \<longrightarrow> ?result"
  proof (rule impI)
    assume a: ?given
    then obtain mapped where m: "salaryData = [mapped]" "\<not> truthy (getProp mapped ''baseSalary'')"
      using mapSalary_single_empty_cells by blast
    let ?v = "validateSalaryRow 0 mapped"
    from falsy_baseSalary_error [OF m(2), of 0]
    have e: "''Valid base salary is required'' \<in> set (rowErrors ?v)" and i: "\<not> isValid ?v"
      by simp_all
    have r: "parseFile env upload expectedType =
            \<lparr> fileName = name upload, fileType = Salary, rowCount = 1, validRows = 0,
              errors = rowMessages 0 (rowErrors ?v)
                       @ map (\<lambda>w. ''Warning: '' @ w) (allWarnings [?v] sv),
              data = [] \<rparr>"
    proof (rule single_row_salary_result)
      show "mapSalary [rawRow] = Inr [mapped]" using a m(1) by (elim conjE) (simp only:)
    qed (use a i in blast)+
    have "''Row 2: Valid base salary is required'' \<in> set (rowMessages 0 (rowErrors ?v))"
      using e by (auto simp: rowMessages_first)
    with r show ?result by simp
  qed
qed

lemma noSalaryRows_mapped:
  "mapSalary noSalaryRows
     = Inr [[(''employeeId'', JStr ''E7''), (''name'', JStr ''Bo Chen''), (''currency'', JStr ''USD'')]]"
  by (simp add: mapSalary_def hasPerformanceColumns_def noSalaryRows_def
        js_string_eval js_number_eval js_coerce_eval table_eval)

lemma noSalaryRows_performance:
  "mapColumns noSalaryRows PERFORMANCE_COLUMN_MAPPINGS
     = Inr [[(''employeeId'', JStr ''E7''), (''name'', JStr ''Bo Chen'')]]"
  by (simp add: noSalaryRows_def js_string_eval js_number_eval js_coerce_eval table_eval)

lemma noSalaryRows_type:
  "fileType (parseFile (acceptingEnv noSalaryRows Salary) csvFile Salary) = Salary"
  by (simp add: parseFile_def parseFileBody_def acceptingEnv_csv noSalaryRows_mapped
        mapAndValidate_def salaryStage_def performanceStage_def filterValid_validated)
     (simp add: noSalaryRows_def)

lemma noSalaryRows_rejected:
  "\<not> isValid (validateSalaryRow 0 [(''employeeId'', JStr ''E7''), (''name'', JStr ''Bo Chen''),
                                     (''currency'', JStr ''USD'')])
   \<and> isValid (validateSalaryRow 0 [(''employeeId'', JStr ''E1''), (''name'', JStr ''Ann Lee''),
                                   (''baseSalary'', JNum (Fin 50000))])
   \<and> rowCount (parseFile (acceptingEnv noSalaryRows Salary) csvFile Salary) = 1
   \<and> validRows (parseFile (acceptingEnv noSalaryRows Salary) csvFile Salary) = 0
   \<and> data (parseFile (acceptingEnv noSalaryRows Salary) csvFile Salary) = []
   \<and> ''Row 2: Valid base salary is required''
        \<in> set (errors (parseFile (acceptingEnv noSalaryRows Salary) csvFile Salary))"
proof -
  let ?sv = "\<lparr> structureValid = True, structureErrors = [], structureWarnings = [],
               detectedFormat = Salary \<rparr>"
  let ?r = "[(''employee_id'', ''E7''), (''name'', ''Bo Chen''), (''currency'', ''USD'')]"
  have rows: "noSalaryRows = [?r]" by (simp add: noSalaryRows_def)
  have cells: "\<forall>(k, v) \<in> set ?r.
      objectGet SALARY_COLUMN_MAPPINGS (trim (toLowerCase k)) = Some ''baseSalary'' \<longrightarrow> v = []"
    by (simp add: js_string_eval table_eval)
  note inst1 = missing_base_salary_rejected [where index = 0
      and row = "[(''employeeId'', JStr ''E7''), (''name'', JStr ''Bo Chen''), (''currency'', JStr ''USD'')]"
      and env = "acceptingEnv noSalaryRows Salary" and upload = csvFile and issues = "[]"
      and rawRow = ?r and sv = ?sv and expectedType = Salary
      and salaryData = "[[(''employeeId'', JStr ''E7''), (''name'', JStr ''Bo Chen''), (''currency'', JStr ''USD'')]]"
      and performanceData = "[[(''employeeId'', JStr ''E7''), (''name'', JStr ''Bo Chen'')]]"]
  note inst2 = missing_base_salary_rejected [where index = 0
      and row = "[(''employeeId'', JStr ''E1''), (''name'', JStr ''Ann Lee''), (''baseSalary'', JNum (Fin 50000))]",
      THEN conjunct1]
  have a: "\<not> isValid (validateSalaryRow 0 [(''employeeId'', JStr ''E7''), (''name'', JStr ''Bo Chen''),
                                     (''currency'', JStr ''USD'')])"
    using inst1 [THEN conjunct1] by (simp add: getProp_def)
  have b: "isValid (validateSalaryRow 0 [(''employeeId'', JStr ''E1''), (''name'', JStr ''Ann Lee''),
                                   (''baseSalary'', JNum (Fin 50000))])"
    using inst2 by (simp add: getProp_def)
  have c: "rowCount (parseFile (acceptingEnv noSalaryRows Salary) csvFile Salary) = 1
   \<and> validRows (parseFile (acceptingEnv noSalaryRows Salary) csvFile Salary) = 0
   \<and> data (parseFile (acceptingEnv noSalaryRows Salary) csvFile Salary) = []
   \<and> ''Row 2: Valid base salary is required''
        \<in> set (errors (parseFile (acceptingEnv noSalaryRows Salary) csvFile Salary))"
    using inst1 [THEN conjunct2] acceptingEnv_csv [of noSalaryRows Salary] noSalaryRows_mapped cells
      noSalaryRows_performance noSalaryRows_type
    unfolding rows by simp
  from a b c show ?thesis by simp
qed

text \<open>
  The salary mapping throws exactly when the sheet is a combined one and the performance
  mapping throws.
\<close>

lemma mapSalary_throws_iff:
  "mapSalary rawData = Inl e \<longleftrightarrow>
     hasPerformanceColumns rawData \<and> mapColumns rawData PERFORMANCE_COLUMN_MAPPINGS = Inl e"
proof -
  obtain out where "mapColumns rawData SALARY_COLUMN_MAPPINGS = Inr out"
    using mapColumns_salary_total by blast
  then show ?thesis
    by (auto simp: mapSalary_def split: sum.splits)
qed

text \<open>
  With expected type salary, a sheet of one row without a base salary always gives
  \<open>validRows = 0\<close> and no data; the row error is reported exactly when the mapping does not
  throw.
\<close>

lemma salary_expected_missing_base_salary:
  assumes "validateFile env upload = Inr issues"
    and "\<not> list_ex (\<lambda>i. severity i = ''ERROR'') issues"
    and "decodeFile env upload = Inr [rawRow]"
    and "validateDataStructure env [rawRow] (name upload) = Inr sv" and "structureValid sv"
    and "\<forall>(k, v) \<in> set rawRow.
           objectGet SALARY_COLUMN_MAPPINGS (trim (toLowerCase k)) = Some ''baseSalary'' \<longrightarrow> v = []"
  shows "rowCount (parseFile env upload Salary) = 1
     \<and> validRows (parseFile env upload Salary) = 0
     \<and> data (parseFile env upload Salary) = []
     \<and> (''Row 2: Valid base salary is required'' \<in> set (errors (parseFile env upload Salary))
          \<longleftrightarrow> (\<exists>salaryData. mapSalary [rawRow] = Inr salaryData))"
proof (cases "mapSalary [rawRow]")
  case (Inl e)
  with assms(1-5) have "parseFile env upload Salary =
      \<lparr> fileName = name upload, fileType = Salary, rowCount = 1, validRows = 0,
        errors = [''Column mapping failed: '' @ messageOr e ''Unknown mapping error''],
        data = [] \<rparr>"
    by (simp add: parseFile_def parseFileBody_def mapAndValidate_def salaryStage_def)
  with Inl show ?thesis by simp
next
  case (Inr salaryData)
  with assms(6) obtain mapped where m: "salaryData = [mapped]"
      "\<not> truthy (getProp mapped ''baseSalary'')"
    using mapSalary_single_empty_cells by blast
  let ?v = "validateSalaryRow 0 mapped"
  from falsy_baseSalary_error [OF m(2), of 0]
  have e: "''Valid base salary is required'' \<in> set (rowErrors ?v)" and i: "\<not> isValid ?v"
    by simp_all
  have r: "parseFile env upload Salary =
      \<lparr> fileName = name upload, fileType = Salary, rowCount = 1, validRows = 0,
        errors = rowMessages 0 (rowErrors ?v)
                 @ map (\<lambda>w. ''Warning: '' @ w) (allWarnings [?v] sv),
        data = [] \<rparr>"
    using assms(1-5) Inr m(1) i
    by (simp add: parseFile_def parseFileBody_def mapAndValidate_def salaryStage_def
          performanceStage_def validateSalaryData_def allErrors_def)
  have "''Row 2: Valid base salary is required'' \<in> set (rowMessages 0 (rowErrors ?v))"
    using e by (auto simp: rowMessages_first)
  with r Inr show ?thesis by simp
qed

lemma riskNoSalaryRows_throw:
  "hasPerformanceColumns riskNoSalaryRows"
  "mapColumns riskNoSalaryRows PERFORMANCE_COLUMN_MAPPINGS
     = Inl (JsError ''value.toLowerCase is not a function'')"
  "mapColumns riskNoSalaryRows SALARY_COLUMN_MAPPINGS
     = Inr [[(''employeeId'', JStr ''E9''), (''name'', JStr ''Kim Roy'')]]"
  by (simp_all add: riskNoSalaryRows_def hasPerformanceColumns_def js_string_eval js_number_eval
        js_coerce_eval table_eval)

text \<open>
  C7. The validity of a salary row is as the claim says (\<open>validateSalaryData_valid_iff\<close>), and
  a salary file whose only row has no base salary gives \<open>validRows = 0\<close> and no data
  (\<open>salary_expected_missing_base_salary\<close>). The error list, however, need not contain
  \<open>Row 2: Valid base salary is required\<close>: in a combined sheet with a numeric retention risk
  the performance mapping throws, by the defect of C6, before any row is validated, and the
  only error reported is the failure of the column mapping.
\<close>

theorem C7_mapping_failure_hides_row_error:
  "parseFile (acceptingEnv riskNoSalaryRows Salary) csvFile Salary
     = \<lparr> fileName = ''export.csv'', fileType = Salary, rowCount = 1, validRows = 0,
         errors = [''Column mapping failed: value.toLowerCase is not a function''], data = [] \<rparr>
   \<and> ''Row 2: Valid base salary is required''
        \<notin> set (errors (parseFile (acceptingEnv riskNoSalaryRows Salary) csvFile Salary))"
proof -
  have ne: "riskNoSalaryRows \<noteq> []" "length riskNoSalaryRows = 1"
    by (simp_all add: riskNoSalaryRows_def)
  have "parseFile (acceptingEnv riskNoSalaryRows Salary) csvFile Salary
     = \<lparr> fileName = name csvFile, fileType = Salary, rowCount = 1, validRows = 0,
         errors = [''Column mapping failed: value.toLowerCase is not a function''], data = [] \<rparr>"
    by (simp add: parseFile_def parseFileBody_def acceptingEnv_csv ne mapAndValidate_def
          salaryStage_def mapSalary_def riskNoSalaryRows_throw messageOr_def)
  then show ?thesis by (simp add: csvFile_def)
qed

section \<open>Header normalisation\<close>

lemma toLowerChar_whitespace: "isWhiteSpace c \<Longrightarrow> toLowerChar c = c"
  by (auto simp: isWhiteSpace_def toLowerChar_def)

lemma toLowerCase_whitespace: "list_all isWhiteSpace s \<Longrightarrow> toLowerCase s = s"
  by (induction s) (simp_all add: toLowerCase_def toLowerChar_whitespace)

lemma trim_whitespace:
  assumes "list_all isWhiteSpace s"
  shows "trim s = []"
  using assms by (auto simp: trim_def list_all_iff dest: set_dropWhileD)

lemma trim_padded:
  assumes "list_all isWhiteSpace pre" and "list_all isWhiteSpace post"
  shows "trim (pre @ s @ post) = trim s"
proof (cases "list_all isWhiteSpace s")
  case True
  with assms have "list_all isWhiteSpace (pre @ s @ post)" by simp
  with True show ?thesis by (simp only: trim_whitespace)
next
  case False
  then obtain x where x: "x \<in> set s" "\<not> isWhiteSpace x" by (auto simp: list_all_iff)
  have "dropWhile isWhiteSpace (pre @ s @ post) = dropWhile isWhiteSpace (s @ post)"
    using assms(1) by (intro dropWhile_append2) (simp add: list_all_iff)
  also have "\<dots> = dropWhile isWhiteSpace s @ post"
    using x by (intro dropWhile_append1)
  finally have "trim (pre @ s @ post)
      = rev (dropWhile isWhiteSpace (rev post @ rev (dropWhile isWhiteSpace s)))"
    by (simp add: trim_def)
  also have "\<dots> = rev (dropWhile isWhiteSpace (rev (dropWhile isWhiteSpace s)))"
    using assms(2) by (intro arg_cong [where f = rev] dropWhile_append2) (simp add: list_all_iff)
  finally show ?thesis by (simp add: trim_def)
qed

text \<open>A header padded with white space and changed in case normalises to the same key.\<close>

lemma normalized_variant:
  assumes "list_all isWhiteSpace pre" and "list_all isWhiteSpace post"
    and "toLowerCase core = toLowerCase key"
  shows "trim (toLowerCase (pre @ core @ post)) = trim (toLowerCase key)"
proof -
  have "toLowerCase (pre @ core @ post) = pre @ toLowerCase key @ post"
    using assms toLowerCase_whitespace [of pre] toLowerCase_whitespace [of post]
    by (simp add: toLowerCase_def)
  with assms(1,2) show ?thesis by (simp add: trim_padded)
qed

lemma mapRow_normalized:
  assumes "trim (toLowerCase key') = trim (toLowerCase key)"
  shows "mapRow m (cellsBefore @ (key', v) # cellsAfter) acc
         = mapRow m (cellsBefore @ (key, v) # cellsAfter) acc"
  using assms
  by (induction cellsBefore arbitrary: acc) (auto split: option.splits sum.splits)

lemma mapColumns_normalized:
  assumes "trim (toLowerCase key') = trim (toLowerCase key)"
  shows "mapColumns (before @ (cellsBefore @ (key', v) # cellsAfter) # after) m
         = mapColumns (before @ (cellsBefore @ (key, v) # cellsAfter) # after) m"
  by (induction before) (simp_all add: mapRow_normalized [OF assms] cong: sum.case_cong)

text \<open>
  C9. The three spellings of the employee-id header reach the same field, and
  \<open>mapColumns\<close> gives the same result when a header of a row is replaced by a spelling that
  differs in case only or is padded with white space.
\<close>

theorem C9_header_case_and_padding:
  "objectGet SALARY_COLUMN_MAPPINGS (trim (toLowerCase ''Employee ID'')) = Some ''employeeId''
   \<and> objectGet SALARY_COLUMN_MAPPINGS (trim (toLowerCase ''employee_id'')) = Some ''employeeId''
   \<and> objectGet SALARY_COLUMN_MAPPINGS (trim (toLowerCase '' EMPLOYEE ID '')) = Some ''employeeId''
   \<and> objectGet PERFORMANCE_COLUMN_MAPPINGS (trim (toLowerCase ''Employee ID'')) = Some ''employeeId''
   \<and> objectGet PERFORMANCE_COLUMN_MAPPINGS (trim (toLowerCase ''employee_id'')) = Some ''employeeId''
   \<and> objectGet PERFORMANCE_COLUMN_MAPPINGS (trim (toLowerCase '' EMPLOYEE ID '')) = Some ''employeeId''
   \<and> (list_all isWhiteSpace pre \<and> list_all isWhiteSpace post \<and> toLowerCase core = toLowerCase key
        \<longrightarrow> mapColumns (before @ (cellsBefore @ (pre @ core @ post, v) # cellsAfter) # after) mappings
            = mapColumns (before @ (cellsBefore @ (key, v) # cellsAfter) # after) mappings)"
proof -
  have "objectGet SALARY_COLUMN_MAPPINGS (trim (toLowerCase ''Employee ID'')) = Some ''employeeId''"
    "objectGet SALARY_COLUMN_MAPPINGS (trim (toLowerCase ''employee_id'')) = Some ''employeeId''"
    "objectGet SALARY_COLUMN_MAPPINGS (trim (toLowerCase '' EMPLOYEE ID '')) = Some ''employeeId''"
    "objectGet PERFORMANCE_COLUMN_MAPPINGS (trim (toLowerCase ''Employee ID'')) = Some ''employeeId''"
    "objectGet PERFORMANCE_COLUMN_MAPPINGS (trim (toLowerCase ''employee_id'')) = Some ''employeeId''"
    "objectGet PERFORMANCE_COLUMN_MAPPINGS (trim (toLowerCase '' EMPLOYEE ID '')) = Some ''employeeId''"
    by (simp_all add: js_string_eval table_eval)
  then show ?thesis
    using mapColumns_normalized [OF normalized_variant] by blast
qed

theorem C9_header_case_and_padding_witness:
  "mapColumns [[('' EMPLOYEE ID '', ''E100''), (''Base Salary'', ''95000'')]] SALARY_COLUMN_MAPPINGS
     = mapColumns [[(''employee id'', ''E100''), (''Base Salary'', ''95000'')]] SALARY_COLUMN_MAPPINGS
   \<and> mapColumns [[(''employee id'', ''E100''), (''Base Salary'', ''95000'')]] SALARY_COLUMN_MAPPINGS
     = Inr [[(''employeeId'', JStr ''E100''), (''baseSalary'', JNum (Fin 95000))]]"
proof -
  have "list_all isWhiteSpace '' ''" by (simp add: isWhiteSpace_def)
  moreover have "toLowerCase ''EMPLOYEE ID'' = toLowerCase ''employee id''"
    by (simp add: js_string_eval)
  ultimately have "mapColumns ([] @ ([] @ ('' '' @ ''EMPLOYEE ID'' @ '' '', ''E100'')
                      # [(''Base Salary'', ''95000'')]) # []) SALARY_COLUMN_MAPPINGS
     = mapColumns ([] @ ([] @ (''employee id'', ''E100'') # [(''Base Salary'', ''95000'')]) # [])
         SALARY_COLUMN_MAPPINGS"
    using C9_header_case_and_padding [where pre = "'' ''" and post = "'' ''"
        and core = "''EMPLOYEE ID''" and key = "''employee id''"]
    by blast
  moreover have "mapColumns [[(''employee id'', ''E100''), (''Base Salary'', ''95000'')]]
       SALARY_COLUMN_MAPPINGS
     = Inr [[(''employeeId'', JStr ''E100''), (''baseSalary'', JNum (Fin 95000))]]"
    by (simp add: js_string_eval js_number_eval js_coerce_eval table_eval)
  ultimately show ?thesis by simp
qed

section \<open>Combined files\<close>

lemma combinedRows_mapped:
  "mapColumns combinedRows SALARY_COLUMN_MAPPINGS = Inr combinedSalaryData"
  "mapColumns combinedRows PERFORMANCE_COLUMN_MAPPINGS = Inr combinedPerformanceData"
  by (simp_all add: combinedRows_def combinedSalaryData_def combinedPerformanceData_def
        js_string_eval js_number_eval js_coerce_eval table_eval)

lemma combinedRows_headers: "hasPerformanceColumns combinedRows"
  by (simp add: hasPerformanceColumns_def combinedRows_def js_string_eval)

lemma combinedRows_merged:
  "mergePerformance combinedSalaryData combinedPerformanceData = combinedMerged"
  by (simp add: combinedSalaryData_def combinedPerformanceData_def combinedMerged_def
        mergeRow_def mergeField_def getProp_def)

text \<open>
  The decoders give every row of a sheet the same headers; then the test on the first row is
  a test on the headers of all rows.
\<close>

lemma hasPerformanceColumns_uniform:
  assumes "rawData \<noteq> []" and "\<forall>row \<in> set rawData. map fst row = map fst (hd rawData)"
  shows "hasPerformanceColumns rawData \<longleftrightarrow>
           (\<exists>row \<in> set rawData. \<exists>key \<in> set (map fst row).
              js_includes (toLowerCase key) ''performance'' \<or> js_includes (toLowerCase key) ''rating'')"
proof (cases rawData)
  case Nil
  with assms(1) show ?thesis by simp
next
  case (Cons first rest)
  define P where "P key \<longleftrightarrow>
    js_includes (toLowerCase key) ''performance'' \<or> js_includes (toLowerCase key) ''rating''" for key
  have eq: "set (map fst row) = set (map fst first)" if "row \<in> set rawData" for row
    using assms(2) Cons that by (metis list.sel(1))
  have "hasPerformanceColumns rawData \<longleftrightarrow> (\<exists>key \<in> set (map fst first). P key)"
    by (simp add: hasPerformanceColumns_def Cons list_ex_iff P_def)
  also have "\<dots> \<longleftrightarrow> (\<exists>row \<in> set rawData. \<exists>key \<in> set (map fst row). P key)"
    using eq Cons by (metis list.set_intros(1))
  finally show ?thesis unfolding P_def .
qed

lemma mapSalary_combined:
  assumes "hasPerformanceColumns rawData"
    and "mapColumns rawData SALARY_COLUMN_MAPPINGS = Inr salaryData"
    and "mapColumns rawData PERFORMANCE_COLUMN_MAPPINGS = Inr performanceData"
  shows "mapSalary rawData = Inr (mergePerformance salaryData performanceData)"
  using assms by (simp add: mapSalary_def)

lemma merged_field:
  assumes "mapColumns rawData SALARY_COLUMN_MAPPINGS = Inr salaryData"
    and "mapColumns rawData PERFORMANCE_COLUMN_MAPPINGS = Inr performanceData"
    and "i < length rawData"
  shows "getProp (mergePerformance salaryData performanceData ! i) f =
           (if f \<in> {''performanceRating'', ''businessImpactScore'', ''retentionRisk''}
            then (if truthy (getProp (performanceData ! i) f) then getProp (performanceData ! i) f
                  else None)
            else getProp (salaryData ! i) f)"
proof -
  from assms have l: "i < length salaryData" "i < length performanceData"
    by (simp_all add: mapColumns_length)
  show ?thesis
    using salary_rows_lack_performance_fields [OF assms(1,3), of f]
    by (auto simp: mergePerformance_nth [OF l] mergeRow_getProp)
qed

text \<open>
  C10. In a combined file a performance field whose coerced value is falsy is not copied: the
  merged row has no such property. \<open>No\<close> as retention risk becomes 0, a blank rating becomes
  the empty string, a business impact of \<open>0\<close> becomes 0, and each of them is dropped.
\<close>

theorem C10_falsy_values_not_merged:
  "coerceValue ''retentionRisk'' ''No'' = Inr (JNum (Fin 0))
   \<and> coerceValue ''performanceRating'' ''  '' = Inr (JStr '''')
   \<and> coerceValue ''businessImpactScore'' ''0'' = Inr (JNum (Fin 0))
   \<and> (hasPerformanceColumns rawData
        \<and> mapColumns rawData SALARY_COLUMN_MAPPINGS = Inr salaryData
        \<and> mapColumns rawData PERFORMANCE_COLUMN_MAPPINGS = Inr performanceData
        \<and> i < length rawData
        \<and> f \<in> {''performanceRating'', ''businessImpactScore'', ''retentionRisk''}
        \<and> \<not> truthy (getProp (performanceData ! i) f)
      \<longrightarrow> mapSalary rawData = Inr (mergePerformance salaryData performanceData)
          \<and> getProp (mergePerformance salaryData performanceData ! i) f = None)"
  (is "?a \<and> ?b \<and> ?c \<and> (?given \<longrightarrow> ?result)")
proof -
  have ?a ?b ?c
    by (simp_all add: js_string_eval js_number_eval js_coerce_eval)
  moreover have "?given \<longrightarrow> ?result"
    using mapSalary_combined [of rawData salaryData performanceData]
      merged_field [of rawData salaryData performanceData i f]
    by simp
  ultimately show ?thesis by blast
qed

theorem C10_falsy_values_not_merged_witness:
  "mapColumns combinedRows PERFORMANCE_COLUMN_MAPPINGS = Inr combinedPerformanceData
   \<and> getProp (combinedPerformanceData ! 0) ''retentionRisk'' = Some (JNum (Fin 0))
   \<and> getProp (combinedPerformanceData ! 0) ''performanceRating'' = Some (JStr '''')
   \<and> getProp (combinedPerformanceData ! 0) ''businessImpactScore'' = Some (JNum (Fin 0))
   \<and> mapSalary combinedRows = Inr combinedMerged
   \<and> getProp (combinedMerged ! 0) ''retentionRisk'' = None
   \<and> getProp (combinedMerged ! 0) ''performanceRating'' = None
   \<and> getProp (combinedMerged ! 0) ''businessImpactScore'' = None"
proof -
  have p: "getProp (combinedPerformanceData ! 0) ''retentionRisk'' = Some (JNum (Fin 0))"
    "getProp (combinedPerformanceData ! 0) ''performanceRating'' = Some (JStr '''')"
    "getProp (combinedPerformanceData ! 0) ''businessImpactScore'' = Some (JNum (Fin 0))"
    by (simp_all add: combinedPerformanceData_def getProp_def)
  have l: "0 < length combinedRows" by (simp add: combinedRows_def)
  note inst = C10_falsy_values_not_merged [where rawData = combinedRows
      and salaryData = combinedSalaryData and performanceData = combinedPerformanceData and i = 0,
      THEN conjunct2, THEN conjunct2, THEN conjunct2, rule_format]
  have "mapSalary combinedRows = Inr (mergePerformance combinedSalaryData combinedPerformanceData)
     \<and> getProp (mergePerformance combinedSalaryData combinedPerformanceData ! 0) ''retentionRisk'' = None"
    using inst [of "''retentionRisk''"] combinedRows_headers combinedRows_mapped l p by simp
  moreover have
    "getProp (mergePerformance combinedSalaryData combinedPerformanceData ! 0) ''performanceRating'' = None"
    using inst [of "''performanceRating''"] combinedRows_headers combinedRows_mapped l p by simp
  moreover have
    "getProp (mergePerformance combinedSalaryData combinedPerformanceData ! 0) ''businessImpactScore'' = None"
    using inst [of "''businessImpactScore''"] combinedRows_headers combinedRows_mapped l p by simp
  ultimately show ?thesis
    using p combinedRows_mapped(2) by (simp add: combinedRows_merged)
qed

text \<open>
  C5, as stated, fails: a performance field the mapping produced is not merged when its value
  is falsy. Here the first row has a retention risk of 0 in the performance mapping and no
  retention risk in the row \<open>parseFile\<close> returns.
\<close>

theorem C5_counterexample:
  "hasPerformanceColumns combinedRows
   \<and> mapColumns combinedRows PERFORMANCE_COLUMN_MAPPINGS = Inr combinedPerformanceData
   \<and> getProp (combinedPerformanceData ! 0) ''retentionRisk'' = Some (JNum (Fin 0))
   \<and> fileType (parseFile (acceptingEnv combinedRows Salary) csvFile Salary) = Salary
   \<and> data (parseFile (acceptingEnv combinedRows Salary) csvFile Salary) = combinedMerged
   \<and> getProp (data (parseFile (acceptingEnv combinedRows Salary) csvFile Salary) ! 0) ''retentionRisk''
       = None"
proof -
  have ne: "combinedRows \<noteq> []" by (simp add: combinedRows_def)
  have v: "filterValid combinedMerged (validateSalaryData combinedMerged) = Inr combinedMerged"
    by (simp add: combinedMerged_def validation_eval)
  have "parseFile (acceptingEnv combinedRows Salary) csvFile Salary
      = \<lparr> fileName = name csvFile, fileType = Salary, rowCount = length combinedRows,
          validRows = length (filter isValid (validateSalaryData combinedMerged)),
          errors = allErrors (validateSalaryData combinedMerged)
                   @ map (\<lambda>w. ''Warning: '' @ w)
                       (allWarnings (validateSalaryData combinedMerged)
                          \<lparr> structureValid = True, structureErrors = [], structureWarnings = [],
                            detectedFormat = Salary \<rparr>),
          data = combinedMerged \<rparr>"
    by (simp add: parseFile_def parseFileBody_def acceptingEnv_csv ne mapAndValidate_def
          salaryStage_def performanceStage_def Let_def v
          mapSalary_combined [OF combinedRows_headers combinedRows_mapped] combinedRows_merged)
  then show ?thesis
    using combinedRows_headers combinedRows_mapped(2)
    by (simp add: combinedPerformanceData_def combinedMerged_def getProp_def)
qed

text \<open>The rows a result typed as salary holds: the valid ones of the salary mapping.\<close>

lemma salary_typed_data:
  assumes "validateFile env upload = Inr issues"
    and "\<not> list_ex (\<lambda>i. severity i = ''ERROR'') issues"
    and "decodeFile env upload = Inr rawData" and "rawData \<noteq> []"
    and "validateDataStructure env rawData (name upload) = Inr sv" and "structureValid sv"
    and "mapSalary rawData = Inr salaryData"
    and "mapColumns rawData PERFORMANCE_COLUMN_MAPPINGS = Inr performanceData"
    and "fileType (parseFile env upload expectedType) = Salary"
  shows "data (parseFile env upload expectedType) =
           map fst (filter (\<lambda>(row, result). isValid result)
                      (zip salaryData (validateSalaryData salaryData)))"
proof (cases expectedType)
  case Salary
  with assms(1-7) show ?thesis
    by (simp add: parseFile_def parseFileBody_def mapAndValidate_def salaryStage_def
          performanceStage_def filterValid_validated)
next
  case Performance
  with assms(1-8) have "fileType (parseFile env upload expectedType) = Performance"
    by (simp add: parseFile_def parseFileBody_def mapAndValidate_def salaryStage_def
          performanceStage_def filterValid_validated)
  with assms(9) show ?thesis by simp
next
  case Unknown
  show ?thesis
  proof (cases "detectedFormat sv = Performance
                \<or> (\<not> validityRate (validateSalaryData salaryData) > 1 / 10
                    \<and> validityRate (validatePerformanceData performanceData)
                        > validityRate (validateSalaryData salaryData))")
    case True
    with Unknown assms(1-8) have "fileType (parseFile env upload expectedType) = Performance"
      by (cases "detectedFormat sv")
         (auto simp: parseFile_def parseFileBody_def mapAndValidate_def salaryStage_def
            performanceStage_def filterValid_validated Let_def)
    with assms(9) show ?thesis by simp
  next
    case False
    with Unknown assms(1-8) show ?thesis
      by (cases "detectedFormat sv")
         (auto simp: parseFile_def parseFileBody_def mapAndValidate_def salaryStage_def
            performanceStage_def filterValid_validated Let_def)
  qed
qed

text \<open>
  C5, amended. When a header of the first decoded row contains \<open>performance\<close> or \<open>rating\<close>
  (in any case), neither mapping throws and the file is processed as a salary file, the
  performance table is mapped over the same rows and row \<open>i\<close> of the salary mapping receives
  from row \<open>i\<close> of the performance mapping each of the three fields whose value is truthy, and
  nothing else; the rows are paired by position, and \<open>data\<close> holds the valid ones among them.
\<close>

theorem C5_positional_merge:
  assumes "hasPerformanceColumns rawData"
    and "mapColumns rawData SALARY_COLUMN_MAPPINGS = Inr salaryData"
    and "mapColumns rawData PERFORMANCE_COLUMN_MAPPINGS = Inr performanceData"
    and "validateFile env upload = Inr issues"
    and "\<not> list_ex (\<lambda>i. severity i = ''ERROR'') issues"
    and "decodeFile env upload = Inr rawData"
    and "validateDataStructure env rawData (name upload) = Inr sv" and "structureValid sv"
    and "fileType (parseFile env upload expectedType) = Salary"
  shows "mapSalary rawData = Inr (mergePerformance salaryData performanceData)
     \<and> length (mergePerformance salaryData performanceData) = length rawData
     \<and> (\<forall>i<length rawData. \<forall>f.
          getProp (mergePerformance salaryData performanceData ! i) f =
            (if f \<in> {''performanceRating'', ''businessImpactScore'', ''retentionRisk''}
             then (if truthy (getProp (performanceData ! i) f) then getProp (performanceData ! i) f
                   else None)
             else getProp (salaryData ! i) f))
     \<and> data (parseFile env upload expectedType) =
          map fst (filter (\<lambda>(row, result). isValid result)
                     (zip (mergePerformance salaryData performanceData)
                          (validateSalaryData (mergePerformance salaryData performanceData))))"
proof -
  let ?merged = "mergePerformance salaryData performanceData"
  have m: "mapSalary rawData = Inr ?merged"
    using assms(1-3) by (rule mapSalary_combined)
  have l: "length ?merged = length rawData"
    using assms(2) by (simp add: mapColumns_length)
  have f: "\<forall>i<length rawData. \<forall>f. getProp (?merged ! i) f =
            (if f \<in> {''performanceRating'', ''businessImpactScore'', ''retentionRisk''}
             then (if truthy (getProp (performanceData ! i) f) then getProp (performanceData ! i) f
                   else None)
             else getProp (salaryData ! i) f)"
    using merged_field [OF assms(2,3)] by blast
  have ne: "rawData \<noteq> []"
    using assms(1) by (auto simp: hasPerformanceColumns_def)
  from salary_typed_data [OF assms(4-6) ne assms(7,8) m assms(3,9)] m l f
  show ?thesis by simp
qed

theorem C5_positional_merge_witness:
  "hasPerformanceColumns combinedRows
   \<and> mapColumns combinedRows SALARY_COLUMN_MAPPINGS = Inr combinedSalaryData
   \<and> mapColumns combinedRows PERFORMANCE_COLUMN_MAPPINGS = Inr combinedPerformanceData
   \<and> mapSalary combinedRows = Inr combinedMerged
   \<and> getProp (combinedMerged ! 1) ''performanceRating'' = Some (JStr ''Exceeds'')
   \<and> getProp (combinedMerged ! 1) ''businessImpactScore'' = Some (JNum (Fin 4))
   \<and> getProp (combinedMerged ! 1) ''retentionRisk'' = Some (JNum (Fin 1))
   \<and> data (parseFile (acceptingEnv combinedRows Salary) csvFile Salary) = combinedMerged"
proof -
  have v: "map fst (filter (\<lambda>(row, result). isValid result)
                     (zip combinedMerged (validateSalaryData combinedMerged))) = combinedMerged"
    by (simp add: combinedMerged_def validation_eval)
  have g: "getProp (combinedMerged ! 1) ''performanceRating'' = Some (JStr ''Exceeds'')"
    "getProp (combinedMerged ! 1) ''businessImpactScore'' = Some (JNum (Fin 4))"
    "getProp (combinedMerged ! 1) ''retentionRisk'' = Some (JNum (Fin 1))"
    by (simp_all add: combinedMerged_def getProp_def)
  have t: "fileType (parseFile (acceptingEnv combinedRows Salary) csvFile Salary) = Salary"
    by (simp add: parseFile_def parseFileBody_def acceptingEnv_csv mapAndValidate_def
          salaryStage_def performanceStage_def filterValid_validated
          mapSalary_combined [OF combinedRows_headers combinedRows_mapped])
       (simp add: combinedRows_def)
  from C5_positional_merge [OF combinedRows_headers combinedRows_mapped acceptingEnv_csv(1) _
      acceptingEnv_csv(2) acceptingEnv_csv(3) _ t]
  have "mapSalary combinedRows = Inr combinedMerged
      \<and> data (parseFile (acceptingEnv combinedRows Salary) csvFile Salary) = combinedMerged"
    by (simp add: combinedRows_merged v)
  with combinedRows_headers combinedRows_mapped g show ?thesis by simp
qed

section \<open>Budget constraint of the recommendation\<close>

text \<open>
  C8. With the constraints the employee view builds, the recommended amount is at most the
  budget that is left and at most \<open>maxPercent\<close> of the current salary, \<open>maxPercent\<close> being 10
  or 12 by location.
\<close>

theorem C8_recommendation_within_budget:
  "recommendedAmount (calculateOptimalRaise scaled aboveMidLowRisk currentSalary
       (budgetConstraints location totalBudget currentBudgetUsage))
     \<le> totalBudget - currentBudgetUsage
   \<and> recommendedAmount (calculateOptimalRaise scaled aboveMidLowRisk currentSalary
       (budgetConstraints location totalBudget currentBudgetUsage))
     \<le> currentSalary * maxPercent (budgetConstraints location totalBudget currentBudgetUsage) / 100
   \<and> available (budgetConstraints location totalBudget currentBudgetUsage)
     = totalBudget - currentBudgetUsage
   \<and> maxPercent (budgetConstraints location totalBudget currentBudgetUsage) \<in> {10, 12}"
proof -
  let ?c = "budgetConstraints location totalBudget currentBudgetUsage"
  let ?r = "calculateOptimalRaise scaled aboveMidLowRisk currentSalary ?c"
  have a: "available ?c = totalBudget - currentBudgetUsage"
    by (simp add: budgetConstraints_def)
  have p: "maxPercent ?c \<in> {10, 12}"
    by (simp add: budgetConstraints_def split: option.splits)
  have "recommendedAmount ?r \<le> available ?c"
    unfolding calculateOptimalRaise_def Let_def by (simp only: RaiseRecommendation.simps min.cobounded2)
  moreover have "recommendedAmount ?r \<le> currentSalary * maxPercent ?c / 100"
    unfolding calculateOptimalRaise_def Let_def
    by (simp only: RaiseRecommendation.simps min.coboundedI1 min.cobounded2)
  ultimately show ?thesis using a p by simp
qed

section \<open>A complete run\<close>

text \<open>
  Scenario A of the specification: one salary row, ingested with expected type salary, is
  kept with its employee id and its base salary as a number.
\<close>

lemma scenario_A:
  "parseFile (acceptingEnv scenarioRows Salary) csvFile Salary
     = \<lparr> fileName = ''export.csv'', fileType = Salary, rowCount = 1, validRows = 1,
         errors = [''Warning: Row 2: Country/location information is missing''],
         data = [[(''employeeId'', JStr ''E100''), (''name'', JStr ''Jane Doe''),
                  (''baseSalary'', JNum (Fin 95000)), (''currency'', JStr ''USD'')]] \<rparr>"
proof -
  have m: "mapSalary scenarioRows
      = Inr [[(''employeeId'', JStr ''E100''), (''name'', JStr ''Jane Doe''),
              (''baseSalary'', JNum (Fin 95000)), (''currency'', JStr ''USD'')]]"
    by (simp add: mapSalary_def hasPerformanceColumns_def scenarioRows_def
          js_string_eval js_number_eval js_coerce_eval table_eval)
  have ne: "scenarioRows \<noteq> []" "length scenarioRows = 1"
    by (simp_all add: scenarioRows_def)
  have "parseFile (acceptingEnv scenarioRows Salary) csvFile Salary
     = \<lparr> fileName = name csvFile, fileType = Salary, rowCount = 1, validRows = 1,
         errors = [''Warning: Row 2: Country/location information is missing''],
         data = [[(''employeeId'', JStr ''E100''), (''name'', JStr ''Jane Doe''),
                  (''baseSalary'', JNum (Fin 95000)), (''currency'', JStr ''USD'')]] \<rparr>"
    by (simp add: parseFile_def parseFileBody_def acceptingEnv_csv ne m mapAndValidate_def
          salaryStage_def performanceStage_def validation_eval allErrors_def allWarnings_def
          rowMessages_first)
  then show ?thesis by (simp add: csvFile_def)
qed

end
